theory Spec2Isabelle
  imports Complex_Main "HOL-Library.Option_ord"
begin

section \<open>Grade reports of \<^verbatim>\<open>lms/djangoapps/instructor_task/tasks_helper/grades.py\<close>\<close>

text \<open>
  A shallow embedding of \<^verbatim>\<open>CourseGradeReportContext\<close>, \<^verbatim>\<open>CourseGradeReport\<close> and
  \<^verbatim>\<open>ProblemGradeReport\<close>. Collaborators that live outside the file (the grading context
  of a course, the grade factory, cohort, team, enrollment and certificate lookups, the
  report store) are parameters: their results are fields of the records below.
  Scores are Python floats in the source; they are rationals here, rounding is not
  modelled, and a division by zero raises \<^verbatim>\<open>ZeroDivisionError\<close> as it does in Python.
\<close>

subsection \<open>Cells, rows and Python errors\<close>

text \<open>A CSV cell holds an integer id, a string, a number or Python's \<^verbatim>\<open>None\<close>.\<close>

datatype cell = CInt int | CStr string | CNum rat | CNone

type_synonym row = "cell list"

type_synonym table = "row list"

datatype py_error = ZeroDivisionError | ValueError | AttributeError

subsection \<open>Ordered dictionaries\<close>

text \<open>
  An \<^verbatim>\<open>OrderedDict\<close> is the list of its items in insertion order. \<^verbatim>\<open>d[k] = v\<close>
  replaces the value of a key that is present, at its place, and appends the item
  otherwise.
\<close>

fun setitem :: "('k \<times> 'v) list \<Rightarrow> 'k \<Rightarrow> 'v \<Rightarrow> ('k \<times> 'v) list" where
  "setitem [] k v = [(k, v)]"
| "setitem ((k', v') # d) k v = (if k' = k then (k, v) # d else (k', v') # setitem d k v)"

text \<open>The dictionary a loop builds by assigning the given items one after the other.\<close>

definition assign_all :: "('k \<times> 'v) list \<Rightarrow> ('k \<times> 'v) list" where
  "assign_all kvs = foldl (\<lambda>d (k, v). setitem d k v) [] kvs"

definition keys :: "('k \<times> 'v) list \<Rightarrow> 'k list" where
  "keys d = map fst d"

definition itervalues :: "('k \<times> 'v) list \<Rightarrow> 'v list" where
  "itervalues d = map snd d"

subsection \<open>The grading context of a course\<close>

type_synonym location = string

record block =
  display_name :: string
  location :: location

record subsection_info =
  subsection_block :: block
  scored_descendants :: "block list"

text \<open>
  \<^verbatim>\<open>grading_context['all_graded_subsections_by_type']\<close>: an ordered dictionary from the
  assignment type to the list of its graded subsections.
\<close>

type_synonym grading_context = "(string \<times> subsection_info list) list"

record partition =
  partition_name :: string

record report_context =
  course_id :: string
  course_experiments :: "partition list"
  teams_enabled :: bool
  cohorts_enabled :: bool
  all_graded_subsections_by_type :: grading_context

subsection \<open>Formatting\<close>

text \<open>\<^verbatim>\<open>str.format\<close> of a non-negative integer: its decimal digits.\<close>

fun string_of_nat :: "nat \<Rightarrow> string" where
  "string_of_nat n =
     (if n < 10 then [''0123456789'' ! n]
      else string_of_nat (n div 10) @ [''0123456789'' ! (n mod 10)])"

declare string_of_nat.simps [simp del]

subsection \<open>\<^verbatim>\<open>CourseGradeReportContext.graded_assignments\<close>\<close>

record assignment_info =
  subsection_headers :: "(location \<times> string) list"
  average_header :: string
  separate_subsection_avg_headers :: bool

definition header_name :: "string \<Rightarrow> nat \<Rightarrow> string \<Rightarrow> string" where
  "header_name assignment_type subsection_index subsection_name =
     assignment_type @ '' '' @ string_of_nat subsection_index @ '': '' @ subsection_name"

definition graded_subsections_map :: "string \<Rightarrow> subsection_info list \<Rightarrow> (location \<times> string) list" where
  "graded_subsections_map assignment_type_name subsection_infos =
     assign_all
       (map (\<lambda>(subsection_index, info).
               (location (subsection_block info),
                header_name assignment_type_name subsection_index
                  (display_name (subsection_block info))))
            (enumerate 1 subsection_infos))"

definition graded_assignment :: "string \<Rightarrow> subsection_info list \<Rightarrow> assignment_info" where
  "graded_assignment assignment_type_name subsection_infos =
     (let separate = length subsection_infos > 1 in
      \<lparr> subsection_headers = graded_subsections_map assignment_type_name subsection_infos,
        average_header = assignment_type_name @ (if separate then '' (Avg)'' else []),
        separate_subsection_avg_headers = separate \<rparr>)"

definition graded_assignments :: "report_context \<Rightarrow> (string \<times> assignment_info) list" where
  "graded_assignments ctx =
     assign_all
       (map (\<lambda>(assignment_type_name, subsection_infos).
               (assignment_type_name, graded_assignment assignment_type_name subsection_infos))
            (all_graded_subsections_by_type ctx))"

subsection \<open>\<^verbatim>\<open>CourseGradeReport\<close>: headers\<close>

definition assignment_headers :: "assignment_info \<Rightarrow> string list" where
  "assignment_headers info =
     (if separate_subsection_avg_headers info then itervalues (subsection_headers info) else [])
     @ [average_header info]"

definition grades_header :: "report_context \<Rightarrow> string list" where
  "grades_header ctx = concat (map assignment_headers (itervalues (graded_assignments ctx)))"

definition success_headers :: "report_context \<Rightarrow> string list" where
  "success_headers ctx =
     [''Student ID'', ''Email'', ''Username'', ''Grade'']
     @ grades_header ctx
     @ (if cohorts_enabled ctx then [''Cohort Name''] else [])
     @ map (\<lambda>p. ''Experiment Group ('' @ partition_name p @ '')'') (course_experiments ctx)
     @ (if teams_enabled ctx then [''Team Name''] else [])
     @ [''Enrollment Track'', ''Verification Status'']
     @ [''Certificate Eligible'', ''Certificate Delivered'', ''Certificate Type'']"

definition error_headers :: "string list" where
  "error_headers = [''Student ID'', ''Username'', ''Error'']"

subsection \<open>Users, grades and the collaborators of a run\<close>

record user =
  user_id :: int
  email :: string
  username :: string

text \<open>
  An \<^verbatim>\<open>AggregatedScore\<close> or \<^verbatim>\<open>ProblemScore\<close>: \<^verbatim>\<open>first_attempted\<close> is a date or
  \<^verbatim>\<open>None\<close>.
\<close>

record score =
  earned :: rat
  possible :: rat
  first_attempted :: "nat option"

record subsection_grade =
  graded_total :: score

text \<open>
  A course grade. \<^verbatim>\<open>grade_breakdown\<close> is \<^verbatim>\<open>grader_result['grade_breakdown']\<close>, a
  dictionary of dictionaries of numbers.
\<close>

record course_grade =
  percent :: rat
  letter_grade :: "string option"
  graded_subsections_by_format :: "string \<rightharpoonup> (location \<rightharpoonup> subsection_grade)"
  grade_breakdown :: "string \<rightharpoonup> (string \<rightharpoonup> rat)"
  problem_scores :: "location \<rightharpoonup> score"

text \<open>
  Modelled from the spec: \<^verbatim>\<open>certificate_info_for_user\<close> of certificates.models is not
  part of the file. The specification gives its result as the triple (eligible,
  delivered, type); the source concatenates it to the row as a list.
\<close>

type_synonym certificate_info = "cell \<times> cell \<times> cell"

text \<open>
  The collaborators, by interface. \<^verbatim>\<open>grade_iter\<close> is what
  \<^verbatim>\<open>CourseGradeFactory().iter\<close> yields for one user: the course grade or \<^verbatim>\<open>None\<close>, and
  the error message. A group or a team is given by its name, \<^verbatim>\<open>None\<close> when the user
  has none. \<^verbatim>\<open>enrollment_mode_for_user\<close> is the first component of the collaborator's
  result.
\<close>

record collaborators =
  users_enrolled_in :: "user list"
  grade_iter :: "user \<Rightarrow> course_grade option \<times> string option"
  get_cohort :: "user \<Rightarrow> string option"
  get_group :: "user \<Rightarrow> partition \<Rightarrow> string option"
  team_membership :: "user \<Rightarrow> string option"
  enrollment_mode_for_user :: "user \<Rightarrow> cell"
  verification_status_for_user :: "user \<Rightarrow> cell \<Rightarrow> cell"
  certificate_info_for_user :: "user \<Rightarrow> string option \<Rightarrow> bool \<Rightarrow> certificate_info"
  certificate_whitelist :: "int list"

subsection \<open>Sequencing computations that may raise\<close>

text \<open>The results of a list of computations run in order: the first error wins.\<close>

fun collect :: "('e + 'a) list \<Rightarrow> 'e + 'a list" where
  "collect [] = Inr []"
| "collect (Inl e # rs) = Inl e"
| "collect (Inr x # rs) = (case collect rs of Inl e \<Rightarrow> Inl e | Inr xs \<Rightarrow> Inr (x # xs))"

subsection \<open>\<^verbatim>\<open>CourseGradeReport\<close>: the row of one user\<close>

definition subsection_grade_result :: "course_grade \<Rightarrow> string \<Rightarrow> location \<Rightarrow> py_error + cell" where
  "subsection_grade_result g assignment_type subsection_location =
     (case graded_subsections_by_format g assignment_type of
        None \<Rightarrow> Inr (CStr ''Not Available'')
      | Some by_location \<Rightarrow>
          (case by_location subsection_location of
             None \<Rightarrow> Inr (CStr ''Not Available'')
           | Some sg \<Rightarrow>
               (if first_attempted (graded_total sg) \<noteq> None then
                  (if possible (graded_total sg) = 0 then Inl ZeroDivisionError
                   else Inr (CNum (earned (graded_total sg) / possible (graded_total sg))))
                else Inr (CStr ''Not Attempted''))))"

definition assignment_average :: "course_grade \<Rightarrow> string \<Rightarrow> cell" where
  "assignment_average g assignment_type =
     (case (case grade_breakdown g assignment_type of None \<Rightarrow> Map.empty | Some d \<Rightarrow> d) ''percent'' of
        None \<Rightarrow> CNone
      | Some p \<Rightarrow> CNum p)"

definition assignment_grade_results :: "course_grade \<Rightarrow> string \<times> assignment_info \<Rightarrow> py_error + cell list" where
  "assignment_grade_results g item =
     (case collect (map (subsection_grade_result g (fst item)) (keys (subsection_headers (snd item)))) of
        Inl e \<Rightarrow> Inl e
      | Inr grade_results \<Rightarrow>
          Inr (grade_results @
               (if separate_subsection_avg_headers (snd item)
                then [assignment_average g (fst item)] else [])))"

definition user_grade_results :: "course_grade \<Rightarrow> report_context \<Rightarrow> py_error + cell list" where
  "user_grade_results g ctx =
     (case collect (map (assignment_grade_results g) (graded_assignments ctx)) of
        Inl e \<Rightarrow> Inl e
      | Inr grade_results \<Rightarrow> Inr (CNum (percent g) # concat grade_results))"

definition name_or_empty :: "string option \<Rightarrow> cell" where
  "name_or_empty grp = (case grp of Some n \<Rightarrow> CStr n | None \<Rightarrow> CStr [])"

definition user_cohort_group_names :: "collaborators \<Rightarrow> user \<Rightarrow> report_context \<Rightarrow> cell list" where
  "user_cohort_group_names env u ctx =
     (if cohorts_enabled ctx then [name_or_empty (get_cohort env u)] else [])"

definition user_experiment_group_names :: "collaborators \<Rightarrow> user \<Rightarrow> report_context \<Rightarrow> cell list" where
  "user_experiment_group_names env u ctx =
     map (\<lambda>p. name_or_empty (get_group env u p)) (course_experiments ctx)"

definition user_team_names :: "collaborators \<Rightarrow> user \<Rightarrow> report_context \<Rightarrow> cell list" where
  "user_team_names env u ctx =
     (if teams_enabled ctx then [name_or_empty (team_membership env u)] else [])"

definition user_verification_mode :: "collaborators \<Rightarrow> user \<Rightarrow> report_context \<Rightarrow> cell list" where
  "user_verification_mode env u ctx =
     (let enrollment_mode = enrollment_mode_for_user env u
      in [enrollment_mode, verification_status_for_user env u enrollment_mode])"

definition user_certificate_info ::
  "collaborators \<Rightarrow> user \<Rightarrow> report_context \<Rightarrow> course_grade \<Rightarrow> int list \<Rightarrow> cell list" where
  "user_certificate_info env u ctx g whitelisted_user_ids =
     (case certificate_info_for_user env u (letter_grade g) (user_id u \<in> set whitelisted_user_ids) of
        (eligible, delivered, cert_type) \<Rightarrow> [eligible, delivered, cert_type])"

text \<open>The success row of a graded user (the \<^verbatim>\<open>else\<close> branch of \<^verbatim>\<open>_rows_for_users\<close>).\<close>

definition success_row ::
  "report_context \<Rightarrow> collaborators \<Rightarrow> int list \<Rightarrow> user \<Rightarrow> course_grade \<Rightarrow> py_error + row" where
  "success_row ctx env whitelisted_user_ids u g =
     (case user_grade_results g ctx of
        Inl e \<Rightarrow> Inl e
      | Inr grade_results \<Rightarrow>
          Inr ([CInt (user_id u), CStr (email u), CStr (username u)]
               @ grade_results
               @ user_cohort_group_names env u ctx
               @ user_experiment_group_names env u ctx
               @ user_team_names env u ctx
               @ user_verification_mode env u ctx
               @ user_certificate_info env u ctx g whitelisted_user_ids))"

definition message_cell :: "string option \<Rightarrow> cell" where
  "message_cell err_msg = (case err_msg of None \<Rightarrow> CNone | Some m \<Rightarrow> CStr m)"

definition error_row :: "user \<Rightarrow> string option \<Rightarrow> row" where
  "error_row u err_msg = [CInt (user_id u), CStr (username u), message_cell err_msg]"

subsection \<open>\<^verbatim>\<open>CourseGradeReport._rows_for_users\<close>\<close>

text \<open>
  A batch is a tuple of the batch iterator: its members are users or the fill value
  \<^verbatim>\<open>None\<close>. The loop reads \<^verbatim>\<open>user.id\<close> in either branch, which the fill value does
  not have.
\<close>

fun rows_loop ::
  "report_context \<Rightarrow> collaborators \<Rightarrow> int list \<Rightarrow> table \<times> table \<Rightarrow> user option list
   \<Rightarrow> py_error + table \<times> table" where
  "rows_loop ctx env wl (success_rows, error_rows) [] = Inr (success_rows, error_rows)"
| "rows_loop ctx env wl (success_rows, error_rows) (None # users) = Inl AttributeError"
| "rows_loop ctx env wl (success_rows, error_rows) (Some u # users) =
     (case grade_iter env u of
        (None, err_msg) \<Rightarrow>
          rows_loop ctx env wl (success_rows, error_rows @ [error_row u err_msg]) users
      | (Some g, err_msg) \<Rightarrow>
          (case success_row ctx env wl u g of
             Inl e \<Rightarrow> Inl e
           | Inr r \<Rightarrow> rows_loop ctx env wl (success_rows @ [r], error_rows) users))"

definition rows_for_users ::
  "report_context \<Rightarrow> collaborators \<Rightarrow> user option list \<Rightarrow> py_error + table \<times> table" where
  "rows_for_users ctx env users = rows_loop ctx env (certificate_whitelist env) ([], []) users"

subsection \<open>\<^verbatim>\<open>CourseGradeReport._batch_users\<close>\<close>

text \<open>
  \<^verbatim>\<open>izip_longest(*[iter(iterable)] * chunk_size, fillvalue=fillvalue)\<close>: each round
  draws up to \<^verbatim>\<open>chunk_size\<close> items from the one shared iterator and pads the tuple
  with the fill value; a round that draws nothing ends the iteration.
\<close>

function grouper :: "'a list \<Rightarrow> nat \<Rightarrow> 'a \<Rightarrow> 'a list list" where
  "grouper iterable chunk_size fillvalue =
     (if chunk_size = 0 \<or> iterable = [] then []
      else (take chunk_size iterable
              @ replicate (chunk_size - length (take chunk_size iterable)) fillvalue)
           # grouper (drop chunk_size iterable) chunk_size fillvalue)"
  by pat_completeness auto
termination
  by (relation "measure (\<lambda>(iterable, chunk_size, fillvalue). length iterable)") auto

declare grouper.simps [simp del]

text \<open>\<^verbatim>\<open>grouper(users)\<close>: the chunk size is its default 1, the fill value \<^verbatim>\<open>None\<close>.\<close>

definition batch_users :: "collaborators \<Rightarrow> user option list list" where
  "batch_users env = grouper (map Some (users_enrolled_in env)) 1 None"

definition batched_rows :: "report_context \<Rightarrow> collaborators \<Rightarrow> (py_error + table \<times> table) list" where
  "batched_rows ctx env = map (rows_for_users ctx env) (batch_users env)"

subsection \<open>\<^verbatim>\<open>CourseGradeReport._compile\<close>\<close>

text \<open>
  Modelled from the spec: \<^verbatim>\<open>TaskProgress\<close> of runner.py is not part of the file. The
  specification gives it the counters total (which may be unknown), attempted, succeeded,
  failed and skipped; a new one has counted nothing yet, and its total is the one it is
  given.
\<close>

record task_progress =
  total :: "nat option"
  attempted :: nat
  succeeded :: nat
  failed :: nat
  skipped :: nat

definition TaskProgress :: "nat option \<Rightarrow> task_progress" where
  "TaskProgress n = \<lparr> total = n, attempted = 0, succeeded = 0, failed = 0, skipped = 0 \<rparr>"

text \<open>
  \<^verbatim>\<open>izip(*args)\<close>: the tuples of the i-th items of the arguments, up to the shortest
  argument; nothing when there is no argument.
\<close>

function izip_star :: "'a list list \<Rightarrow> 'a list list" where
  "izip_star args =
     (if args = [] \<or> [] \<in> set args then []
      else map hd args # izip_star (map tl args))"
  by pat_completeness auto
termination
proof (relation "measure (\<lambda>args. length (hd args))")
  show "wf (measure (\<lambda>args::'a list list. length (hd args)))"
    by simp
next
  fix args :: "'a list list"
  assume "\<not> (args = [] \<or> [] \<in> set args)"
  then have "args \<noteq> []" and "hd args \<noteq> []"
    by (cases args; auto)+
  then show "(map tl args, args) \<in> measure (\<lambda>args. length (hd args))"
    by (simp add: hd_map)
qed

declare izip_star.simps [simp del]

text \<open>\<^verbatim>\<open>a, b = iterable\<close> wants exactly two items.\<close>

definition unpack2 :: "'a list \<Rightarrow> py_error + 'a \<times> 'a" where
  "unpack2 xs = (case xs of [a, b] \<Rightarrow> Inr (a, b) | _ \<Rightarrow> Inl ValueError)"

text \<open>
  \<^verbatim>\<open>izip(*batched_rows)\<close> runs the generator of batches first, so an error of a batch
  is raised there; each batch result is a pair, read as the two-item tuple it is.
\<close>

definition compile ::
  "(py_error + table \<times> table) list \<Rightarrow> task_progress
   \<Rightarrow> py_error + table \<times> table \<times> task_progress" where
  "compile batches progress =
     (case collect batches of
        Inl e \<Rightarrow> Inl e
      | Inr pairs \<Rightarrow>
          (case unpack2 (izip_star (map (\<lambda>(s, e). [s, e]) pairs)) of
             Inl e \<Rightarrow> Inl e
           | Inr (batch_successes, batch_errors) \<Rightarrow>
               (let success_rows = concat batch_successes;
                    error_rows = concat batch_errors;
                    p1 = progress\<lparr>succeeded := length success_rows\<rparr>;
                    p2 = p1\<lparr>failed := length error_rows\<rparr>;
                    p3 = p2\<lparr>attempted := succeeded p2 + failed p2\<rparr>;
                    p4 = p3\<lparr>total := Some (attempted p3)\<rparr>
                in Inr (success_rows, error_rows, p4))))"

subsection \<open>\<^verbatim>\<open>CourseGradeReport._upload\<close> and \<^verbatim>\<open>_generate\<close>\<close>

text \<open>
  A call of \<^verbatim>\<open>upload_csv_to_report_store\<close>: the rows, the name of the artifact and the
  course. The date is the same for the uploads of a run and is left out.
\<close>

record upload =
  csv_rows :: table
  csv_name :: string
  csv_course :: string

definition header_cells :: "string list \<Rightarrow> row" where
  "header_cells hs = map CStr hs"

definition upload_reports ::
  "report_context \<Rightarrow> string list \<Rightarrow> table \<Rightarrow> string list \<Rightarrow> table \<Rightarrow> upload list" where
  "upload_reports ctx s_headers success_rows e_headers error_rows =
     [\<lparr> csv_rows = header_cells s_headers # success_rows, csv_name = ''grade_report'',
        csv_course = course_id ctx \<rparr>]
     @ (if length error_rows > 0
        then [\<lparr> csv_rows = header_cells e_headers # error_rows, csv_name = ''grade_report_err'',
                csv_course = course_id ctx \<rparr>]
        else [])"

text \<open>
  The outcome of a run: how it ended, the uploads the report store received, the
  progress the status sink saw at each \<^verbatim>\<open>update_status\<close>, and the counters at the end.
\<close>

record run =
  outcome :: "py_error + unit"
  uploads :: "upload list"
  statuses :: "(string \<times> task_progress) list"
  progress :: task_progress

definition generate :: "report_context \<Rightarrow> collaborators \<Rightarrow> run" where
  "generate ctx env =
     (let p0 = TaskProgress None;
          started = [(''Starting grades'', p0), (''Compiling grades'', p0)]
      in case compile (batched_rows ctx env) p0 of
           Inl e \<Rightarrow> \<lparr> outcome = Inl e, uploads = [], statuses = started, progress = p0 \<rparr>
         | Inr (success_rows, error_rows, p) \<Rightarrow>
             \<lparr> outcome = Inr (),
               uploads = upload_reports ctx (success_headers ctx) success_rows
                           error_headers error_rows,
               statuses = started @ [(''Uploading grades'', p), (''Completed grades'', p)],
               progress = p \<rparr>)"

subsection \<open>\<^verbatim>\<open>ProblemGradeReport\<close>\<close>

definition problem_header_name :: "string \<Rightarrow> nat \<Rightarrow> string \<Rightarrow> string \<Rightarrow> string" where
  "problem_header_name assignment_type subsection_index subsection_name scorable_block_name =
     assignment_type @ '' '' @ string_of_nat subsection_index @ '': '' @ subsection_name
       @ '' - '' @ scorable_block_name"

definition graded_scorable_blocks_to_header :: "grading_context \<Rightarrow> (location \<times> string list) list" where
  "graded_scorable_blocks_to_header gc =
     assign_all
       (concat (map (\<lambda>(assignment_type_name, subsection_infos).
          concat (map (\<lambda>(subsection_index, info).
            map (\<lambda>scorable_block.
                   (location scorable_block,
                    [problem_header_name assignment_type_name subsection_index
                       (display_name (subsection_block info)) (display_name scorable_block)
                       @ '' (Earned)'',
                     problem_header_name assignment_type_name subsection_index
                       (display_name (subsection_block info)) (display_name scorable_block)
                       @ '' (Possible)'']))
                (scored_descendants info))
            (enumerate 1 subsection_infos)))
          gc))"

definition problem_cells :: "course_grade \<Rightarrow> location \<Rightarrow> cell list" where
  "problem_cells g block_location =
     (case problem_scores g block_location of
        None \<Rightarrow> [CStr ''Not Available'', CStr ''Not Available'']
      | Some problem_score \<Rightarrow>
          (if first_attempted problem_score \<noteq> None
           then [CNum (earned problem_score), CNum (possible problem_score)]
           else [CStr ''Not Attempted'', CNum (possible problem_score)]))"

definition student_fields :: "user \<Rightarrow> cell list" where
  "student_fields student = [CInt (user_id student), CStr (email student), CStr (username student)]"

text \<open>\<^verbatim>\<open>if not err_msg: err_msg = u'Unknown error'\<close>: an absent or empty message.\<close>

definition known_message :: "string option \<Rightarrow> string" where
  "known_message err_msg =
     (case err_msg of None \<Rightarrow> ''Unknown error''
      | Some m \<Rightarrow> if m = [] then ''Unknown error'' else m)"

text \<open>
  The state of the loop of \<^verbatim>\<open>ProblemGradeReport.generate\<close>: the counters, the two
  tables (header row first) and what \<^verbatim>\<open>update_task_state\<close> has been shown.
\<close>

record problem_state =
  task :: task_progress
  rows :: table
  error_rows :: table
  shown :: "task_progress list"

definition status_interval :: nat where
  "status_interval = 100"

text \<open>The counters right after \<^verbatim>\<open>task_progress.attempted += 1\<close>.\<close>

definition count_attempt :: "task_progress \<Rightarrow> task_progress" where
  "count_attempt p = p\<lparr>attempted := attempted p + 1\<rparr>"

definition problem_step ::
  "(location \<times> string list) list \<Rightarrow> problem_state
   \<Rightarrow> user \<times> course_grade option \<times> string option \<Rightarrow> problem_state" where
  "problem_step graded_scorable_blocks st item =
     (case item of (student, grade, err_msg) \<Rightarrow>
        (let p1 = count_attempt (task st)
         in case grade of
              None \<Rightarrow>
                st\<lparr> error_rows := error_rows st @ [student_fields student @ [CStr (known_message err_msg)]],
                    task := p1\<lparr>failed := failed p1 + 1\<rparr> \<rparr>
            | Some g \<Rightarrow>
                (let p2 = p1\<lparr>succeeded := succeeded p1 + 1\<rparr>
                 in st\<lparr> rows := rows st @ [student_fields student @ [CNum (percent g)]
                                    @ concat (map (problem_cells g) (keys graded_scorable_blocks))],
                        task := p2,
                        shown := shown st @ (if attempted p2 mod status_interval = 0 then [p2] else []) \<rparr>)))"

definition problem_start :: "(location \<times> string list) list \<Rightarrow> nat \<Rightarrow> problem_state" where
  "problem_start graded_scorable_blocks n =
     \<lparr> task = TaskProgress (Some n),
       rows = [header_cells ([''Student ID'', ''Email'', ''Username''] @ [''Grade'']
                 @ concat (itervalues graded_scorable_blocks))],
       error_rows = [header_cells ([''Student ID'', ''Email'', ''Username''] @ [''error_msg''])],
       shown = [] \<rparr>"

definition problem_loop ::
  "grading_context \<Rightarrow> collaborators \<Rightarrow> user list \<Rightarrow> problem_state" where
  "problem_loop gc env students =
     (let graded_scorable_blocks = graded_scorable_blocks_to_header gc
      in foldl (problem_step graded_scorable_blocks)
           (problem_start graded_scorable_blocks (length (users_enrolled_in env)))
           (map (\<lambda>student. (student, grade_iter env student)) students))"

definition problem_uploads :: "string \<Rightarrow> problem_state \<Rightarrow> upload list" where
  "problem_uploads course st =
     (if length (rows st) > 1
      then [\<lparr> csv_rows = rows st, csv_name = ''problem_grade_report'', csv_course = course \<rparr>]
      else [])
     @ (if length (error_rows st) > 1
        then [\<lparr> csv_rows = error_rows st, csv_name = ''problem_grade_report_err'',
                csv_course = course \<rparr>]
        else [])"

definition problem_generate :: "string \<Rightarrow> grading_context \<Rightarrow> collaborators \<Rightarrow> run" where
  "problem_generate course gc env =
     (let st = problem_loop gc env (users_enrolled_in env)
      in \<lparr> outcome = Inr (),
           uploads = problem_uploads course st,
           statuses = map (\<lambda>p. (''Calculating Grades'', p)) (shown st) @ [(''Uploading CSV'', task st)],
           progress = task st \<rparr>)"

subsection \<open>Well-formed configurations and the schema in the words of the specification\<close>

text \<open>
  The assignment types are the keys of a dictionary, so they are pairwise distinct. The
  sub-items of a category are keyed by their location, their identity.
\<close>

definition sub_item_locations :: "subsection_info list \<Rightarrow> location list" where
  "sub_item_locations sub_items = map (\<lambda>s. location (subsection_block s)) sub_items"

definition unique_categories :: "grading_context \<Rightarrow> bool" where
  "unique_categories gc = distinct (keys gc)"

definition unique_locations :: "grading_context \<Rightarrow> bool" where
  "unique_locations gc = (\<forall>(category, sub_items) \<in> set gc. distinct (sub_item_locations sub_items))"

text \<open>Every category has at least one sub-item.\<close>

definition nonempty_categories :: "grading_context \<Rightarrow> bool" where
  "nonempty_categories gc = (\<forall>(category, sub_items) \<in> set gc. sub_items \<noteq> [])"

text \<open>
  The headers of a category as the specification words them: the bare name of a category
  of one sub-item; for more than one, a header per sub-item with its 1-based position and
  name, then the average header. A category without sub-items has the bare name too.
\<close>

definition category_headers :: "string \<times> subsection_info list \<Rightarrow> string list" where
  "category_headers item =
     (case item of (category, sub_items) \<Rightarrow>
        if length sub_items > 1
        then map (\<lambda>(i, s). category @ '' '' @ string_of_nat i @ '': '' @ display_name (subsection_block s))
               (enumerate 1 sub_items)
             @ [category @ '' (Avg)'']
        else [category])"

text \<open>
  The grade columns as the specification counts them: per category, the number of
  sub-items plus one when there is more than one sub-item, one column otherwise.
\<close>

definition grade_columns :: "grading_context \<Rightarrow> nat" where
  "grade_columns gc =
     sum_list (map (\<lambda>(category, sub_items).
                      if length sub_items > 1 then length sub_items + 1 else 1) gc)"

subsection \<open>Example data\<close>

text \<open>
  A course with the category Homework of three sub-items and the category Exam of one,
  five enrolled users of whom the third cannot be graded.
\<close>

definition example_sub_item :: "string \<Rightarrow> location \<Rightarrow> subsection_info" where
  "example_sub_item n l =
     \<lparr> subsection_block = \<lparr> display_name = n, location = l \<rparr>,
       scored_descendants = [\<lparr> display_name = ''P'', location = l @ ''/p'' \<rparr>] \<rparr>"

definition example_config :: grading_context where
  "example_config =
     [(''Homework'', [example_sub_item ''H1'' ''hw1'', example_sub_item ''H2'' ''hw2'',
                      example_sub_item ''H3'' ''hw3'']),
      (''Exam'', [example_sub_item ''Final'' ''ex1''])]"

definition example_context :: "grading_context \<Rightarrow> report_context" where
  "example_context gc =
     \<lparr> course_id = ''course-v1:edX+Demo'', course_experiments = [\<lparr> partition_name = ''Split'' \<rparr>],
       teams_enabled = True, cohorts_enabled = True, all_graded_subsections_by_type = gc \<rparr>"

definition example_user :: "int \<Rightarrow> string \<Rightarrow> user" where
  "example_user i n = \<lparr> user_id = i, email = n @ ''@example.com'', username = n \<rparr>"

definition example_score :: "rat \<Rightarrow> rat \<Rightarrow> nat option \<Rightarrow> score" where
  "example_score e p a = \<lparr> earned = e, possible = p, first_attempted = a \<rparr>"

definition example_grade :: "score \<Rightarrow> course_grade" where
  "example_grade s =
     \<lparr> percent = 3 / 4, letter_grade = Some ''B'',
       graded_subsections_by_format =
         [''Homework'' \<mapsto> [''hw1'' \<mapsto> \<lparr> graded_total = s \<rparr>,
                          ''hw2'' \<mapsto> \<lparr> graded_total = example_score 0 5 None \<rparr>]],
       grade_breakdown = [''Homework'' \<mapsto> [''percent'' \<mapsto> 1 / 2]],
       problem_scores = [''hw1/p'' \<mapsto> s, ''hw2/p'' \<mapsto> example_score 0 5 None] \<rparr>"

definition example_collaborators :: "score \<Rightarrow> collaborators" where
  "example_collaborators s =
     \<lparr> users_enrolled_in = [example_user 1 ''ann'', example_user 2 ''bob'', example_user 3 ''cy'',
                            example_user 4 ''dee'', example_user 5 ''eve''],
       grade_iter = (\<lambda>u. if user_id u = 3 then (None, Some ''grading failed'')
                           else (Some (example_grade s), Some [])),
       get_cohort = (\<lambda>u. None),
       get_group = (\<lambda>u p. Some ''A''),
       team_membership = (\<lambda>u. None),
       enrollment_mode_for_user = (\<lambda>u. CStr ''verified''),
       verification_status_for_user = (\<lambda>u m. CStr ''ID Verified''),
       certificate_info_for_user = (\<lambda>u l w. (CStr ''Y'', CStr ''N'', CStr ''N/A'')),
       certificate_whitelist = [2] \<rparr>"

definition example_row :: "int \<Rightarrow> string \<Rightarrow> row" where
  "example_row i n =
     [CInt i, CStr (n @ ''@example.com''), CStr n, CNum (3 / 4),
      CNum (3 / 4), CStr ''Not Attempted'', CStr ''Not Available'', CNum (1 / 2),
      CStr ''Not Available'',
      CStr [], CStr ''A'', CStr [], CStr ''verified'', CStr ''ID Verified'',
      CStr ''Y'', CStr ''N'', CStr ''N/A'']"

subsection \<open>Cells and rows in the words of the specification\<close>

text \<open>The entry of a sub-item in the grade result of an entity, if there is one.\<close>

definition sub_item_entry :: "course_grade \<Rightarrow> string \<Rightarrow> location \<Rightarrow> subsection_grade option" where
  "sub_item_entry g assignment_type l =
     (case graded_subsections_by_format g assignment_type of
        None \<Rightarrow> None
      | Some by_location \<Rightarrow> by_location l)"

text \<open>
  An attempted sub-item with zero possible points: the division of the source raises
  there. A grade is free of such sub-items when none of the configured columns has one.
\<close>

definition zero_possible :: "course_grade \<Rightarrow> string \<Rightarrow> location \<Rightarrow> bool" where
  "zero_possible g assignment_type l =
     (case sub_item_entry g assignment_type l of
        None \<Rightarrow> False
      | Some sg \<Rightarrow> first_attempted (graded_total sg) \<noteq> None \<and> possible (graded_total sg) = 0)"

definition no_zero_division :: "report_context \<Rightarrow> course_grade \<Rightarrow> bool" where
  "no_zero_division ctx g =
     (\<forall>item \<in> set (graded_assignments ctx).
        \<forall>l \<in> set (keys (subsection_headers (snd item))). \<not> zero_possible g (fst item) l)"

definition all_gradable :: "report_context \<Rightarrow> collaborators \<Rightarrow> user list \<Rightarrow> bool" where
  "all_gradable ctx env users =
     (\<forall>u \<in> set users. case fst (grade_iter env u) of None \<Rightarrow> True | Some g \<Rightarrow> no_zero_division ctx g)"

text \<open>
  The cell of a sub-item column: "Not Available" without an entry, "Not Attempted" for an
  entry never attempted, the earned points divided by the possible points otherwise. It
  is the cell of the source wherever the source does not divide by zero.
\<close>

definition grade_cell :: "course_grade \<Rightarrow> string \<Rightarrow> location \<Rightarrow> cell" where
  "grade_cell g assignment_type l =
     (case sub_item_entry g assignment_type l of
        None \<Rightarrow> CStr ''Not Available''
      | Some sg \<Rightarrow>
          if first_attempted (graded_total sg) = None then CStr ''Not Attempted''
          else CNum (earned (graded_total sg) / possible (graded_total sg)))"

text \<open>The cells of a category: its sub-item cells, then the average when it has its own column.\<close>

definition category_cells :: "course_grade \<Rightarrow> string \<times> assignment_info \<Rightarrow> cell list" where
  "category_cells g item =
     map (grade_cell g (fst item)) (keys (subsection_headers (snd item)))
     @ (if separate_subsection_avg_headers (snd item) then [assignment_average g (fst item)] else [])"

text \<open>The rows an entity adds to either table.\<close>

definition error_rows_of :: "collaborators \<Rightarrow> user \<Rightarrow> table" where
  "error_rows_of env u =
     (case grade_iter env u of
        (None, err_msg) \<Rightarrow> [[CInt (user_id u), CStr (username u), message_cell err_msg]]
      | (Some g, err_msg) \<Rightarrow> [])"

definition success_rows_of :: "report_context \<Rightarrow> collaborators \<Rightarrow> user \<Rightarrow> (py_error + row) list" where
  "success_rows_of ctx env u =
     (case grade_iter env u of
        (None, err_msg) \<Rightarrow> []
      | (Some g, err_msg) \<Rightarrow> [success_row ctx env (certificate_whitelist env) u g])"

text \<open>The identity cells every success row starts with.\<close>

definition identity_cells :: "user \<Rightarrow> cell list" where
  "identity_cells u = [CInt (user_id u), CStr (email u), CStr (username u)]"

text \<open>The same collaborators for a course nobody is enrolled in.\<close>

definition no_users :: "collaborators \<Rightarrow> collaborators" where
  "no_users env = env\<lparr> users_enrolled_in := [] \<rparr>"

subsection \<open>Progress counters\<close>

text \<open>The invariant of the counters, and the order in which no counter decreases.\<close>

definition counters_consistent :: "task_progress \<Rightarrow> bool" where
  "counters_consistent p = (attempted p = succeeded p + failed p)"

definition counters_le :: "task_progress \<Rightarrow> task_progress \<Rightarrow> bool" where
  "counters_le p q =
     (total p \<le> total q \<and> attempted p \<le> attempted q \<and> succeeded p \<le> succeeded q
      \<and> failed p \<le> failed q \<and> skipped p \<le> skipped q)"

text \<open>
  What holds between the iterations of the loop of \<^verbatim>\<open>ProblemGradeReport.generate\<close>: the
  counters are consistent and count the rows of the two tables (each has its header
  row), and what the status sink was shown was consistent and is in ascending order.
\<close>

definition loop_invariant :: "problem_state \<Rightarrow> bool" where
  "loop_invariant st =
     (counters_consistent (task st)
      \<and> length (rows st) = succeeded (task st) + 1
      \<and> length (error_rows st) = failed (task st) + 1
      \<and> (\<forall>p \<in> set (shown st). counters_consistent p \<and> counters_le p (task st))
      \<and> sorted_wrt counters_le (shown st))"

text \<open>The header row of the problem report.\<close>

definition problem_header_row :: "grading_context \<Rightarrow> row" where
  "problem_header_row gc =
     header_cells ([''Student ID'', ''Email'', ''Username'', ''Grade'']
                   @ concat (itervalues (graded_scorable_blocks_to_header gc)))"

text \<open>The counters at the end of the example run.\<close>

definition example_progress :: task_progress where
  "example_progress = \<lparr> total = Some 5, attempted = 5, succeeded = 4, failed = 1, skipped = 0 \<rparr>"

section \<open>Properties\<close>

subsection \<open>Helper lemmas\<close>

subsubsection \<open>Ordered dictionaries built from distinct keys\<close>

lemma keys_setitem:
  "keys (setitem d k v) = (if k \<in> set (keys d) then keys d else keys d @ [k])"
  by (induction d) (force simp: keys_def)+

lemma setitem_fresh: "k \<notin> set (keys d) \<Longrightarrow> setitem d k v = d @ [(k, v)]"
  by (induction d) (auto simp: keys_def)

lemma set_setitem: "set (setitem d k v) \<subseteq> insert (k, v) (set d)"
  by (induction d) (auto split: if_splits)

lemma foldl_setitem_fresh:
  "distinct (map fst kvs) \<Longrightarrow> set (keys d) \<inter> set (map fst kvs) = {}
   \<Longrightarrow> foldl (\<lambda>d (k, v). setitem d k v) d kvs = d @ kvs"
proof (induction kvs arbitrary: d)
  case Nil
  then show ?case by simp
next
  case (Cons kv kvs)
  obtain k v where kv: "kv = (k, v)" by (cases kv)
  from Cons.prems have fresh: "k \<notin> set (keys d)" and rest: "distinct (map fst kvs)"
    and k: "k \<notin> set (map fst kvs)" and disj: "set (keys d) \<inter> set (map fst kvs) = {}"
    by (auto simp: kv)
  have "set (keys (d @ [(k, v)])) \<inter> set (map fst kvs) = {}"
    using disj k by (auto simp: keys_def)
  with Cons.IH [OF rest, of "d @ [(k, v)]"] fresh show ?case
    by (simp add: kv setitem_fresh)
qed

lemma assign_all_distinct: "distinct (map fst kvs) \<Longrightarrow> assign_all kvs = kvs"
  using foldl_setitem_fresh [of kvs "[]"] by (simp add: assign_all_def keys_def)

lemma foldl_setitem_subset:
  "set (foldl (\<lambda>d (k, v). setitem d k v) d kvs) \<subseteq> set d \<union> set kvs"
proof (induction kvs arbitrary: d)
  case Nil
  then show ?case by simp
next
  case (Cons kv kvs)
  obtain k v where kv: "kv = (k, v)" by (cases kv)
  show ?case using Cons.IH [of "setitem d k v"] set_setitem [of d k v]
    by (auto simp: kv)
qed

lemma set_assign_all: "set (assign_all kvs) \<subseteq> set kvs"
  using foldl_setitem_subset [of "[]" kvs] by (simp add: assign_all_def)

subsubsection \<open>The schema of a well-formed configuration\<close>

lemma map_fst_enumerate_items:
  "map fst (map (\<lambda>(i, x). (f x, g i x)) (enumerate n xs)) = map f xs"
  by (induction xs arbitrary: n) auto

lemma graded_subsections_map_distinct:
  assumes "distinct (sub_item_locations infos)"
  shows "graded_subsections_map n infos =
           map (\<lambda>(i, info). (location (subsection_block info),
                              header_name n i (display_name (subsection_block info))))
               (enumerate 1 infos)"
proof -
  have "distinct (map fst (map (\<lambda>(i, info). (location (subsection_block info),
                              header_name n i (display_name (subsection_block info))))
               (enumerate 1 infos)))"
    unfolding map_fst_enumerate_items using assms by (simp add: sub_item_locations_def)
  then show ?thesis
    unfolding graded_subsections_map_def by (rule assign_all_distinct)
qed

lemma graded_assignments_distinct:
  assumes "unique_categories (all_graded_subsections_by_type ctx)"
  shows "graded_assignments ctx =
           map (\<lambda>(n, infos). (n, graded_assignment n infos)) (all_graded_subsections_by_type ctx)"
proof -
  have "map fst (map (\<lambda>(n, infos). (n, graded_assignment n infos)) (all_graded_subsections_by_type ctx))
          = keys (all_graded_subsections_by_type ctx)"
    by (induction "all_graded_subsections_by_type ctx") (auto simp: keys_def)
  then show ?thesis
    unfolding graded_assignments_def using assms
    by (intro assign_all_distinct) (simp add: unique_categories_def)
qed

lemma assignment_headers_distinct:
  assumes "distinct (sub_item_locations infos)"
  shows "assignment_headers (graded_assignment n infos) = category_headers (n, infos)"
proof -
  have "map snd (map (\<lambda>(i, info). (location (subsection_block info),
                                   header_name n i (display_name (subsection_block info))))
                     (enumerate 1 infos))
        = map (\<lambda>(i, s). n @ '' '' @ string_of_nat i @ '': '' @ display_name (subsection_block s))
              (enumerate 1 infos)"
    by (simp add: header_name_def case_prod_unfold)
  then show ?thesis
    using graded_subsections_map_distinct [OF assms, of n]
    by (simp add: assignment_headers_def graded_assignment_def category_headers_def itervalues_def Let_def)
qed

lemma grades_header_distinct:
  assumes "unique_categories (all_graded_subsections_by_type ctx)"
    and "unique_locations (all_graded_subsections_by_type ctx)"
  shows "grades_header ctx = concat (map category_headers (all_graded_subsections_by_type ctx))"
proof -
  have "map assignment_headers (itervalues (graded_assignments ctx))
        = map (\<lambda>(n, infos). assignment_headers (graded_assignment n infos))
              (all_graded_subsections_by_type ctx)"
    by (simp add: graded_assignments_distinct [OF assms(1)] itervalues_def case_prod_unfold)
  also have "\<dots> = map category_headers (all_graded_subsections_by_type ctx)"
    using assms(2) by (auto simp: unique_locations_def assignment_headers_distinct)
  finally show ?thesis by (simp add: grades_header_def)
qed

lemma length_category_headers:
  "length (category_headers (n, infos)) = (if length infos > 1 then length infos + 1 else 1)"
  by (simp add: category_headers_def)

lemma length_concat_category_headers:
  "length (concat (map category_headers gc)) = grade_columns gc"
  by (induction gc) (auto simp: grade_columns_def length_category_headers)

subsubsection \<open>Sequenced results\<close>

lemma collect_map_Inr: "collect (map Inr xs) = Inr xs"
  by (induction xs) simp_all

lemma collect_Inr_iff: "collect rs = Inr xs \<longleftrightarrow> rs = map Inr xs"
proof
  show "collect rs = Inr xs \<Longrightarrow> rs = map Inr xs"
  proof (induction rs arbitrary: xs)
    case Nil
    then show ?case by simp
  next
    case (Cons r rs)
    show ?case
    proof (cases r)
      case (Inl e)
      with Cons.prems show ?thesis by simp
    next
      case (Inr x)
      show ?thesis
      proof (cases "collect rs")
        case (Inl e)
        with Cons.prems \<open>r = Inr x\<close> show ?thesis by simp
      next
        case (Inr ys)
        with Cons.prems \<open>r = Inr x\<close> have "xs = x # ys" by simp
        moreover from Cons.IH [OF Inr] have "rs = map Inr ys" .
        ultimately show ?thesis using \<open>r = Inr x\<close> by simp
      qed
    qed
  qed
next
  show "rs = map Inr xs \<Longrightarrow> collect rs = Inr xs"
    by (simp add: collect_map_Inr)
qed

lemma collect_length: "collect rs = Inr xs \<Longrightarrow> length xs = length rs"
  by (simp add: collect_Inr_iff)

subsubsection \<open>Alignment of the grade segment and of the row\<close>

lemma length_assignment_grade_results:
  assumes "assignment_grade_results g item = Inr cells"
  shows "length cells = length (subsection_headers (snd item))
           + (if separate_subsection_avg_headers (snd item) then 1 else 0)"
proof -
  from assms obtain grs where c: "collect (map (subsection_grade_result g (fst item))
        (keys (subsection_headers (snd item)))) = Inr grs"
    and cells: "cells = grs @ (if separate_subsection_avg_headers (snd item)
                               then [assignment_average g (fst item)] else [])"
    by (auto simp: assignment_grade_results_def split: sum.splits)
  from collect_length [OF c] have "length grs = length (subsection_headers (snd item))"
    by (simp add: keys_def)
  then show ?thesis by (simp add: cells)
qed

lemma length_graded_subsections_map_single:
  "length (graded_subsections_map n [x]) = 1"
  by (simp add: graded_subsections_map_def assign_all_def)

lemma assignment_aligned:
  assumes "infos \<noteq> []" and "assignment_grade_results g (n, graded_assignment n infos) = Inr cells"
  shows "length cells = length (assignment_headers (graded_assignment n infos))"
proof (cases "length infos > 1")
  case True
  with length_assignment_grade_results [OF assms(2)] show ?thesis
    by (simp add: assignment_headers_def graded_assignment_def itervalues_def)
next
  case False
  with assms(1) obtain x where "infos = [x]"
    by (cases infos) auto
  with length_assignment_grade_results [OF assms(2)] show ?thesis
    by (simp add: assignment_headers_def graded_assignment_def length_graded_subsections_map_single)
qed

lemma graded_assignments_members:
  assumes "item \<in> set (graded_assignments ctx)"
  shows "\<exists>infos. (fst item, infos) \<in> set (all_graded_subsections_by_type ctx)
           \<and> snd item = graded_assignment (fst item) infos"
proof -
  from assms set_assign_all have
    "item \<in> set (map (\<lambda>(n, infos). (n, graded_assignment n infos)) (all_graded_subsections_by_type ctx))"
    unfolding graded_assignments_def by blast
  then show ?thesis by auto
qed

lemma concat_aligned:
  assumes "collect (map f items) = Inr css"
    and "\<And>item cells. item \<in> set items \<Longrightarrow> f item = Inr cells \<Longrightarrow> length cells = length (h item)"
  shows "length (concat css) = length (concat (map h items))"
  using assms
proof (induction items arbitrary: css)
  case Nil
  then show ?case by simp
next
  case (Cons item items)
  from Cons.prems(1) obtain cells rest where css: "css = cells # rest"
    and f: "f item = Inr cells" and r: "collect (map f items) = Inr rest"
    by (auto simp: collect_Inr_iff map_eq_Cons_conv)
  have "length cells = length (h item)" using Cons.prems(2) f by simp
  moreover have "length (concat rest) = length (concat (map h items))"
    using Cons.IH [OF r] Cons.prems(2) by simp
  ultimately show ?case by (simp add: css)
qed

lemma user_grade_results_aligned:
  assumes "nonempty_categories (all_graded_subsections_by_type ctx)"
    and "user_grade_results g ctx = Inr cells"
  shows "length cells = 1 + length (grades_header ctx)"
proof -
  from assms(2) obtain css where c: "collect (map (assignment_grade_results g) (graded_assignments ctx)) = Inr css"
    and cells: "cells = CNum (percent g) # concat css"
    by (auto simp: user_grade_results_def split: sum.splits)
  have "length (concat css) = length (concat (map (\<lambda>item. assignment_headers (snd item)) (graded_assignments ctx)))"
  proof (rule concat_aligned [OF c])
    fix item cs
    assume item: "item \<in> set (graded_assignments ctx)" and r: "assignment_grade_results g item = Inr cs"
    from graded_assignments_members [OF item] obtain infos where
      m: "(fst item, infos) \<in> set (all_graded_subsections_by_type ctx)"
      and s: "snd item = graded_assignment (fst item) infos" by blast
    from m assms(1) have "infos \<noteq> []" by (auto simp: nonempty_categories_def)
    moreover have "assignment_grade_results g (fst item, graded_assignment (fst item) infos) = Inr cs"
      using r s by (cases item) simp
    ultimately have "length cs = length (assignment_headers (graded_assignment (fst item) infos))"
      by (rule assignment_aligned)
    then show "length cs = length (assignment_headers (snd item))"
      by (simp add: s)
  qed
  then show ?thesis
    by (simp add: cells grades_header_def itervalues_def comp_def)
qed

lemma length_user_certificate_info: "length (user_certificate_info env u ctx g wl) = 3"
  by (simp add: user_certificate_info_def split: prod.splits)

lemma success_row_aligned:
  assumes "nonempty_categories (all_graded_subsections_by_type ctx)"
    and "success_row ctx env wl u g = Inr r"
  shows "length r = length (success_headers ctx)"
proof -
  from assms(2) obtain cells where c: "user_grade_results g ctx = Inr cells"
    and r: "r = [CInt (user_id u), CStr (email u), CStr (username u)] @ cells
               @ user_cohort_group_names env u ctx @ user_experiment_group_names env u ctx
               @ user_team_names env u ctx @ user_verification_mode env u ctx
               @ user_certificate_info env u ctx g wl"
    by (auto simp: success_row_def split: sum.splits)
  show ?thesis
    using user_grade_results_aligned [OF assms(1) c]
    by (simp add: r success_headers_def user_cohort_group_names_def user_experiment_group_names_def
        user_team_names_def user_verification_mode_def length_user_certificate_info Let_def)
qed

lemma rows_loop_aligned:
  assumes "nonempty_categories (all_graded_subsections_by_type ctx)"
    and "rows_loop ctx env wl (s0, e0) users = Inr (s, e)"
    and "\<forall>r \<in> set s0. length r = length (success_headers ctx)"
  shows "\<forall>r \<in> set s. length r = length (success_headers ctx)"
  using assms(2,3)
proof (induction users arbitrary: s0 e0)
  case Nil
  then show ?case by simp
next
  case (Cons x users)
  show ?case
  proof (cases x)
    case None
    with Cons.prems show ?thesis by simp
  next
    case (Some u)
    obtain gr msg where gi: "grade_iter env u = (gr, msg)" by (cases "grade_iter env u")
    show ?thesis
    proof (cases gr)
      case None
      with Cons.prems Some gi have "rows_loop ctx env wl (s0, e0 @ [error_row u msg]) users = Inr (s, e)"
        by simp
      from Cons.IH [OF this Cons.prems(2)] show ?thesis .
    next
      case (Some g)
      with Cons.prems \<open>x = Some u\<close> gi obtain r where sr: "success_row ctx env wl u g = Inr r"
        and l: "rows_loop ctx env wl (s0 @ [r], e0) users = Inr (s, e)"
        by (auto split: sum.splits)
      have "\<forall>r' \<in> set (s0 @ [r]). length r' = length (success_headers ctx)"
        using Cons.prems(2) success_row_aligned [OF assms(1) sr] by simp
      from Cons.IH [OF l this] show ?thesis .
    qed
  qed
qed

subsubsection \<open>The example, evaluated\<close>

lemma example_context_fields:
  "course_id (example_context gc) = ''course-v1:edX+Demo''"
  "course_experiments (example_context gc) = [\<lparr> partition_name = ''Split'' \<rparr>]"
  "teams_enabled (example_context gc)"
  "cohorts_enabled (example_context gc)"
  "all_graded_subsections_by_type (example_context gc) = gc"
  by (simp_all add: example_context_def)

lemma example_collaborators_fields:
  "users_enrolled_in (example_collaborators s) =
     [example_user 1 ''ann'', example_user 2 ''bob'', example_user 3 ''cy'',
      example_user 4 ''dee'', example_user 5 ''eve'']"
  "grade_iter (example_collaborators s) u =
     (if user_id u = 3 then (None, Some ''grading failed'') else (Some (example_grade s), Some []))"
  "get_cohort (example_collaborators s) u = None"
  "get_group (example_collaborators s) u p = Some ''A''"
  "team_membership (example_collaborators s) u = None"
  "enrollment_mode_for_user (example_collaborators s) u = CStr ''verified''"
  "verification_status_for_user (example_collaborators s) u m = CStr ''ID Verified''"
  "certificate_info_for_user (example_collaborators s) u l w = (CStr ''Y'', CStr ''N'', CStr ''N/A'')"
  "certificate_whitelist (example_collaborators s) = [2]"
  by (simp_all add: example_collaborators_def)

lemma example_user_fields:
  "user_id (example_user i n) = i"
  "email (example_user i n) = n @ ''@example.com''"
  "username (example_user i n) = n"
  by (simp_all add: example_user_def)

lemma example_graded_assignments:
  "graded_assignments (example_context example_config) =
     [(''Homework'', \<lparr> subsection_headers = [(''hw1'', ''Homework 1: H1''), (''hw2'', ''Homework 2: H2''),
                                              (''hw3'', ''Homework 3: H3'')],
                      average_header = ''Homework (Avg)'', separate_subsection_avg_headers = True \<rparr>),
      (''Exam'', \<lparr> subsection_headers = [(''ex1'', ''Exam 1: Final'')],
                  average_header = ''Exam'', separate_subsection_avg_headers = False \<rparr>)]"
  by (simp add: example_context_fields example_config_def example_sub_item_def graded_assignments_def
      graded_assignment_def graded_subsections_map_def assign_all_def header_name_def
      string_of_nat.simps)

lemma example_user_grade_results:
  "user_grade_results (example_grade (example_score 3 4 (Some 42))) (example_context example_config) =
     Inr [CNum (3 / 4), CNum (3 / 4), CStr ''Not Attempted'', CStr ''Not Available'', CNum (1 / 2),
          CStr ''Not Available'']"
  by (simp add: user_grade_results_def example_graded_assignments assignment_grade_results_def
      subsection_grade_result_def assignment_average_def keys_def example_grade_def example_score_def)

lemma example_success_row:
  "success_row (example_context example_config) (example_collaborators (example_score 3 4 (Some 42))) [2]
     (example_user i n) (example_grade (example_score 3 4 (Some 42))) = Inr (example_row i n)"
  by (simp add: success_row_def example_user_grade_results user_cohort_group_names_def
      user_experiment_group_names_def user_team_names_def user_verification_mode_def
      user_certificate_info_def name_or_empty_def example_context_fields
      example_collaborators_fields example_user_fields example_row_def)

lemma example_success_headers:
  "success_headers (example_context example_config) =
     [''Student ID'', ''Email'', ''Username'', ''Grade'',
      ''Homework 1: H1'', ''Homework 2: H2'', ''Homework 3: H3'', ''Homework (Avg)'', ''Exam'',
      ''Cohort Name'', ''Experiment Group (Split)'', ''Team Name'',
      ''Enrollment Track'', ''Verification Status'',
      ''Certificate Eligible'', ''Certificate Delivered'', ''Certificate Type'']"
  by (simp add: success_headers_def grades_header_def example_graded_assignments assignment_headers_def
      itervalues_def example_context_fields)

lemma example_rows_for_users:
  "rows_for_users (example_context example_config) (example_collaborators (example_score 3 4 (Some 42)))
     [Some (example_user 2 ''bob''), Some (example_user 3 ''cy'')]
   = Inr ([example_row 2 ''bob''], [[CInt 3, CStr ''cy'', CStr ''grading failed'']])"
  by (simp add: rows_for_users_def example_collaborators_fields example_user_fields
      example_success_row error_row_def message_cell_def)

subsubsection \<open>Rows without a division by zero\<close>

lemma subsection_grade_result_eq:
  "subsection_grade_result g t l =
     (if zero_possible g t l then Inl ZeroDivisionError else Inr (grade_cell g t l))"
  by (simp add: subsection_grade_result_def zero_possible_def grade_cell_def sub_item_entry_def
      split: option.splits)

lemma collect_map_all_Inr:
  assumes "\<And>x. x \<in> set xs \<Longrightarrow> f x = Inr (h x)"
  shows "collect (map f xs) = Inr (map h xs)"
proof -
  have "map f xs = map Inr (map h xs)" using assms by simp
  then show ?thesis by (simp only: collect_map_Inr)
qed

lemma assignment_grade_results_eq:
  assumes "\<forall>l \<in> set (keys (subsection_headers (snd item))). \<not> zero_possible g (fst item) l"
  shows "assignment_grade_results g item = Inr (category_cells g item)"
proof -
  have "collect (map (subsection_grade_result g (fst item)) (keys (subsection_headers (snd item))))
        = Inr (map (grade_cell g (fst item)) (keys (subsection_headers (snd item))))"
    using assms by (intro collect_map_all_Inr) (simp add: subsection_grade_result_eq)
  then show ?thesis
    by (simp add: assignment_grade_results_def category_cells_def)
qed

lemma user_grade_results_eq:
  assumes "no_zero_division ctx g"
  shows "user_grade_results g ctx =
           Inr (CNum (percent g) # concat (map (category_cells g) (graded_assignments ctx)))"
proof -
  have "collect (map (assignment_grade_results g) (graded_assignments ctx))
        = Inr (map (category_cells g) (graded_assignments ctx))"
    using assms
    by (intro collect_map_all_Inr assignment_grade_results_eq) (simp add: no_zero_division_def)
  then show ?thesis by (simp add: user_grade_results_def)
qed

lemma success_row_Inr:
  assumes "no_zero_division ctx g"
  shows "\<exists>r. success_row ctx env wl u g = Inr r"
  by (simp add: success_row_def user_grade_results_eq [OF assms])

lemma rows_loop_all:
  assumes "all_gradable ctx env users"
  shows "\<exists>successes. rows_loop ctx env (certificate_whitelist env) (s0, e0) (map Some users)
            = Inr (s0 @ successes, e0 @ concat (map (error_rows_of env) users))
          \<and> map Inr successes = concat (map (success_rows_of ctx env) users)"
  using assms
proof (induction users arbitrary: s0 e0)
  case Nil
  then show ?case by simp
next
  case (Cons u users)
  from Cons.prems have rest: "all_gradable ctx env users"
    by (simp add: all_gradable_def)
  obtain gr msg where gi: "grade_iter env u = (gr, msg)" by (cases "grade_iter env u")
  show ?case
  proof (cases gr)
    case None
    from Cons.IH [OF rest, of s0 "e0 @ [error_row u msg]"] obtain successes where
      l: "rows_loop ctx env (certificate_whitelist env) (s0, e0 @ [error_row u msg]) (map Some users)
            = Inr (s0 @ successes, (e0 @ [error_row u msg]) @ concat (map (error_rows_of env) users))"
      and m: "map Inr successes = concat (map (success_rows_of ctx env) users)"
      by blast
    have here: "error_rows_of env u = [error_row u msg]" "success_rows_of ctx env u = []"
      using gi None by (simp_all add: error_rows_of_def success_rows_of_def error_row_def)
    show ?thesis
      using l m gi None by (intro exI [of _ successes]) (simp add: here)
  next
    case (Some g)
    with Cons.prems gi have "no_zero_division ctx g"
      by (simp add: all_gradable_def)
    from success_row_Inr [OF this] obtain r where
      r: "success_row ctx env (certificate_whitelist env) u g = Inr r" by blast
    from Cons.IH [OF rest, of "s0 @ [r]" e0] obtain successes where
      l: "rows_loop ctx env (certificate_whitelist env) (s0 @ [r], e0) (map Some users)
            = Inr ((s0 @ [r]) @ successes, e0 @ concat (map (error_rows_of env) users))"
      and m: "map Inr successes = concat (map (success_rows_of ctx env) users)"
      by blast
    have here: "error_rows_of env u = []" "success_rows_of ctx env u = [Inr r]"
      using gi Some r by (simp_all add: error_rows_of_def success_rows_of_def)
    show ?thesis
      using l m gi Some r by (intro exI [of _ "r # successes"]) (simp add: here)
  qed
qed

lemma example_no_zero_division:
  "no_zero_division (example_context example_config) (example_grade (example_score 3 4 (Some 42)))"
  by (simp add: no_zero_division_def example_graded_assignments keys_def zero_possible_def
      sub_item_entry_def example_grade_def example_score_def)

lemma example_all_gradable:
  "all_gradable (example_context example_config) (example_collaborators (example_score 3 4 (Some 42)))
     (users_enrolled_in (example_collaborators (example_score 3 4 (Some 42))))"
  by (simp add: all_gradable_def example_collaborators_fields example_no_zero_division)

lemma example_score_fields:
  "earned (example_score e p a) = e"
  "possible (example_score e p a) = p"
  "first_attempted (example_score e p a) = a"
  by (simp_all add: example_score_def)

subsubsection \<open>Batches and their compilation\<close>

lemma grouper_one: "grouper xs 1 fill = map (\<lambda>x. [x]) xs"
proof (induction xs)
  case Nil
  then show ?case by (simp add: grouper.simps)
next
  case (Cons x xs)
  then show ?case by (subst grouper.simps) simp
qed

lemma batch_users_eq: "batch_users env = map (\<lambda>u. [Some u]) (users_enrolled_in env)"
  by (simp only: batch_users_def grouper_one map_map comp_def)

lemma batched_rows_eq:
  "batched_rows ctx env = map (\<lambda>u. rows_for_users ctx env [Some u]) (users_enrolled_in env)"
  by (simp add: batched_rows_def batch_users_eq comp_def)

lemma izip_star_Nil: "izip_star [] = []"
  by (simp add: izip_star.simps)

lemma izip_star_pairs:
  assumes "pairs \<noteq> []"
  shows "izip_star (map (\<lambda>(s, e). [s, e]) pairs) = [map fst pairs, map snd pairs]"
proof -
  from assms obtain p ps where pairs: "pairs = p # ps" by (cases pairs) auto
  have 1: "izip_star (map (\<lambda>p. []) pairs) = ([] :: 'a list list)"
    by (subst izip_star.simps) (simp add: pairs)
  have 2: "izip_star (map (\<lambda>p. [snd p]) pairs) = [map snd pairs]"
    by (subst izip_star.simps) (use 1 in \<open>auto simp: comp_def pairs\<close>)
  have "izip_star (map (\<lambda>p. [fst p, snd p]) pairs) = [map fst pairs, map snd pairs]"
    by (subst izip_star.simps) (use 2 in \<open>auto simp: comp_def pairs\<close>)
  then show ?thesis by (simp add: case_prod_unfold)
qed

lemma unpack_batches:
  "unpack2 (izip_star (map (\<lambda>(s, e). [s, e]) pairs)) =
     (if pairs = [] then Inl ValueError else Inr (map fst pairs, map snd pairs))"
  by (simp add: izip_star_Nil izip_star_pairs unpack2_def)

lemma collect_Inl: "collect rs = Inl e \<Longrightarrow> Inl e \<in> set rs"
proof (induction rs)
  case Nil
  then show ?case by simp
next
  case (Cons r rs)
  then show ?case by (cases r) (auto split: sum.splits)
qed

lemma compile_eq:
  "compile batches p =
     (case collect batches of
        Inl e \<Rightarrow> Inl e
      | Inr pairs \<Rightarrow>
          if pairs = [] then Inl ValueError
          else Inr (concat (map fst pairs), concat (map snd pairs),
                    p\<lparr> succeeded := length (concat (map fst pairs)),
                       failed := length (concat (map snd pairs)),
                       attempted := length (concat (map fst pairs)) + length (concat (map snd pairs)),
                       total := Some (length (concat (map fst pairs)) + length (concat (map snd pairs))) \<rparr>))"
  by (simp add: compile_def unpack_batches Let_def split: sum.splits)

lemma compile_Nil: "compile [] p = Inl ValueError"
  by (simp add: compile_eq)

lemma subsection_grade_result_Inl:
  "subsection_grade_result g t l = Inl e \<Longrightarrow> e = ZeroDivisionError"
  by (simp add: subsection_grade_result_eq split: if_splits)

lemma assignment_grade_results_Inl:
  assumes "assignment_grade_results g item = Inl e"
  shows "e = ZeroDivisionError"
proof -
  from assms have "collect (map (subsection_grade_result g (fst item))
      (keys (subsection_headers (snd item)))) = Inl e"
    by (simp add: assignment_grade_results_def split: sum.splits)
  from collect_Inl [OF this] show ?thesis
    by (auto dest: subsection_grade_result_Inl [OF sym])
qed

lemma user_grade_results_Inl:
  assumes "user_grade_results g ctx = Inl e"
  shows "e = ZeroDivisionError"
proof -
  from assms have "collect (map (assignment_grade_results g) (graded_assignments ctx)) = Inl e"
    by (simp add: user_grade_results_def split: sum.splits)
  from collect_Inl [OF this] show ?thesis
    by (auto dest: assignment_grade_results_Inl [OF sym])
qed

lemma success_row_cases:
  "success_row ctx env wl u g = Inl ZeroDivisionError
   \<or> (\<exists>r. success_row ctx env wl u g = Inr r \<and> take 3 r = identity_cells u)"
proof (cases "user_grade_results g ctx")
  case (Inl e)
  with user_grade_results_Inl [OF Inl] show ?thesis by (simp add: success_row_def)
next
  case (Inr cells)
  then show ?thesis by (simp add: success_row_def identity_cells_def)
qed

lemma rows_for_single:
  "rows_for_users ctx env [Some u] = Inl ZeroDivisionError
   \<or> (\<exists>successes errors. rows_for_users ctx env [Some u] = Inr (successes, errors)
        \<and> (\<forall>r \<in> set successes. take 3 r = identity_cells u)
        \<and> (\<forall>r \<in> set errors. \<exists>m. r = [CInt (user_id u), CStr (username u), m]))"
proof -
  obtain gr msg where gi: "grade_iter env u = (gr, msg)" by (cases "grade_iter env u")
  show ?thesis
  proof (cases gr)
    case None
    with gi show ?thesis by (simp add: rows_for_users_def error_row_def)
  next
    case (Some g)
    with gi success_row_cases [of ctx env "certificate_whitelist env" u g] show ?thesis
      by (auto simp: rows_for_users_def)
  qed
qed

lemma batched_rows_members:
  assumes "b \<in> set (batched_rows ctx env)"
  shows "b = Inl ZeroDivisionError
   \<or> (\<exists>u \<in> set (users_enrolled_in env). \<exists>successes errors. b = Inr (successes, errors)
        \<and> (\<forall>r \<in> set successes. take 3 r = identity_cells u)
        \<and> (\<forall>r \<in> set errors. \<exists>m. r = [CInt (user_id u), CStr (username u), m]))"
proof -
  from assms obtain u where u: "u \<in> set (users_enrolled_in env)"
    and b: "b = rows_for_users ctx env [Some u]"
    by (auto simp: batched_rows_eq)
  from rows_for_single [of ctx env u] show ?thesis
    unfolding b using u by blast
qed

lemma compile_not_AttributeError: "compile (batched_rows ctx env) p \<noteq> Inl AttributeError"
proof
  assume a: "compile (batched_rows ctx env) p = Inl AttributeError"
  then have "collect (batched_rows ctx env) = Inl AttributeError"
    by (auto simp: compile_eq split: sum.splits if_splits)
  from collect_Inl [OF this] batched_rows_members [of "Inl AttributeError" ctx env]
  show False by auto
qed

lemma generate_outcome:
  "outcome (generate ctx env) =
     (case compile (batched_rows ctx env) (TaskProgress None) of Inl e \<Rightarrow> Inl e | Inr x \<Rightarrow> Inr ())"
  by (simp add: generate_def Let_def split: sum.splits prod.splits)

subsubsection \<open>The example run\<close>

lemma grouper_pads: "grouper [1, 2, 3 :: nat] 2 0 = [[1, 2], [3, 0]]"
  by (simp add: grouper.simps)

lemma example_batched_rows:
  "batched_rows (example_context example_config) (example_collaborators (example_score 3 4 (Some 42)))
   = [Inr ([example_row 1 ''ann''], []), Inr ([example_row 2 ''bob''], []),
      Inr ([], [[CInt 3, CStr ''cy'', CStr ''grading failed'']]),
      Inr ([example_row 4 ''dee''], []), Inr ([example_row 5 ''eve''], [])]"
  by (simp add: batched_rows_eq example_collaborators_fields rows_for_users_def example_user_fields
      example_success_row error_row_def message_cell_def)

lemma example_compile:
  "compile (batched_rows (example_context example_config)
              (example_collaborators (example_score 3 4 (Some 42)))) (TaskProgress None)
   = Inr ([example_row 1 ''ann'', example_row 2 ''bob'', example_row 4 ''dee'', example_row 5 ''eve''],
          [[CInt 3, CStr ''cy'', CStr ''grading failed'']],
          \<lparr> total = Some 5, attempted = 5, succeeded = 4, failed = 1, skipped = 0 \<rparr>)"
  by (simp add: compile_eq example_batched_rows TaskProgress_def)

lemma no_users_fields:
  "users_enrolled_in (no_users env) = []"
  by (simp add: no_users_def)

subsubsection \<open>Counters and the loop of the problem report\<close>

lemma counters_le_refl: "counters_le p p"
  by (simp add: counters_le_def)

lemma counters_le_trans: "counters_le p q \<Longrightarrow> counters_le q r \<Longrightarrow> counters_le p r"
  by (auto simp: counters_le_def)

lemma count_attempt_le: "counters_le p (count_attempt p)"
  by (simp add: counters_le_def count_attempt_def)

lemma problem_step_task:
  "task (problem_step b st (u, gr, msg)) =
     (case gr of
        None \<Rightarrow> (count_attempt (task st))\<lparr>failed := failed (count_attempt (task st)) + 1\<rparr>
      | Some g \<Rightarrow> (count_attempt (task st))\<lparr>succeeded := succeeded (count_attempt (task st)) + 1\<rparr>)"
  by (simp add: problem_step_def Let_def split: option.splits)

lemma problem_step_le: "counters_le (count_attempt (task st)) (task (problem_step b st item))"
proof -
  obtain u gr msg where item: "item = (u, gr, msg)" by (cases item)
  show ?thesis
    by (simp add: item problem_step_task counters_le_def split: option.splits)
qed

lemma problem_step_le_task: "counters_le (task st) (task (problem_step b st item))"
  using count_attempt_le problem_step_le by (rule counters_le_trans)

lemma problem_step_shown:
  "shown (problem_step b st item) = shown st
   \<or> shown (problem_step b st item) = shown st @ [task (problem_step b st item)]"
proof -
  obtain u gr msg where item: "item = (u, gr, msg)" by (cases item)
  show ?thesis
    by (simp add: item problem_step_def Let_def split: option.splits)
qed

lemma problem_step_tables:
  "length (rows (problem_step b st (u, gr, msg))) = length (rows st) + (if gr = None then 0 else 1)
   \<and> length (error_rows (problem_step b st (u, gr, msg)))
       = length (error_rows st) + (if gr = None then 1 else 0)"
  by (simp add: problem_step_def Let_def split: option.splits)

lemma problem_step_consistent:
  "counters_consistent (task st) \<Longrightarrow> counters_consistent (task (problem_step b st item))"
proof -
  obtain u gr msg where item: "item = (u, gr, msg)" by (cases item)
  show "counters_consistent (task st) \<Longrightarrow> counters_consistent (task (problem_step b st item))"
    by (simp add: item problem_step_task counters_consistent_def count_attempt_def
        split: option.splits)
qed

lemma sorted_wrt_snoc:
  "sorted_wrt P (xs @ [x]) \<longleftrightarrow> sorted_wrt P xs \<and> (\<forall>y \<in> set xs. P y x)"
  by (simp add: sorted_wrt_append)

lemma problem_step_invariant:
  assumes "loop_invariant st"
  shows "loop_invariant (problem_step b st item)"
proof -
  obtain u gr msg where item: "item = (u, gr, msg)" by (cases item)
  let ?st = "problem_step b st item"
  from assms have c: "counters_consistent (task st)"
    and r: "length (rows st) = succeeded (task st) + 1"
    and e: "length (error_rows st) = failed (task st) + 1"
    and sh: "\<forall>p \<in> set (shown st). counters_consistent p \<and> counters_le p (task st)"
    and so: "sorted_wrt counters_le (shown st)"
    by (simp_all add: loop_invariant_def)
  have c': "counters_consistent (task ?st)"
    using c by (rule problem_step_consistent)
  have r': "length (rows ?st) = succeeded (task ?st) + 1"
    using r problem_step_tables [of b st u gr msg]
    by (simp add: item problem_step_task count_attempt_def split: option.splits)
  have e': "length (error_rows ?st) = failed (task ?st) + 1"
    using e problem_step_tables [of b st u gr msg]
    by (simp add: item problem_step_task count_attempt_def split: option.splits)
  have old: "\<forall>p \<in> set (shown st). counters_consistent p \<and> counters_le p (task ?st)"
    using sh problem_step_le_task [of st b item] by (blast intro: counters_le_trans)
  have sh': "\<forall>p \<in> set (shown ?st). counters_consistent p \<and> counters_le p (task ?st)"
    using problem_step_shown [of b st item] old c' by (auto simp: counters_le_refl)
  have so': "sorted_wrt counters_le (shown ?st)"
    using problem_step_shown [of b st item] so old by (auto simp: sorted_wrt_snoc)
  show ?thesis
    using c' r' e' sh' so' by (simp add: loop_invariant_def)
qed

lemma foldl_invariant:
  "loop_invariant st \<Longrightarrow> loop_invariant (foldl (problem_step b) st items)"
  by (induction items arbitrary: st) (simp_all add: problem_step_invariant)

lemma problem_start_invariant: "loop_invariant (problem_start b n)"
  by (simp add: loop_invariant_def problem_start_def TaskProgress_def counters_consistent_def)

lemma problem_loop_invariant: "loop_invariant (problem_loop gc env students)"
  by (simp add: problem_loop_def Let_def foldl_invariant problem_start_invariant)

lemma problem_step_header:
  "rows st \<noteq> [] \<Longrightarrow> rows (problem_step b st item) \<noteq> []
     \<and> take 1 (rows (problem_step b st item)) = take 1 (rows st)"
proof -
  obtain u gr msg where item: "item = (u, gr, msg)" by (cases item)
  show "rows st \<noteq> [] \<Longrightarrow> rows (problem_step b st item) \<noteq> []
     \<and> take 1 (rows (problem_step b st item)) = take 1 (rows st)"
    by (cases "rows st") (simp_all add: item problem_step_def Let_def split: option.splits)
qed

lemma foldl_header:
  "rows st \<noteq> [] \<Longrightarrow> rows (foldl (problem_step b) st items) \<noteq> []
     \<and> take 1 (rows (foldl (problem_step b) st items)) = take 1 (rows st)"
proof (induction items arbitrary: st)
  case Nil
  then show ?case by simp
next
  case (Cons item items)
  from problem_step_header [OF Cons.prems, of b item]
  have n: "rows (problem_step b st item) \<noteq> []"
    and t: "take 1 (rows (problem_step b st item)) = take 1 (rows st)" by simp_all
  from Cons.IH [OF n] t show ?case by simp
qed

lemma problem_loop_header:
  "take 1 (rows (problem_loop gc env students)) = [problem_header_row gc]"
  using foldl_header [of "problem_start (graded_scorable_blocks_to_header gc)
      (length (users_enrolled_in env))" "graded_scorable_blocks_to_header gc"
      "map (\<lambda>student. (student, grade_iter env student)) students"]
  by (simp add: problem_loop_def Let_def problem_start_def problem_header_row_def)

subsubsection \<open>The outcome of a course report\<close>

lemma generate_Inl:
  assumes "compile (batched_rows ctx env) (TaskProgress None) = Inl e"
  shows "generate ctx env =
           \<lparr> outcome = Inl e, uploads = [],
             statuses = [(''Starting grades'', TaskProgress None), (''Compiling grades'', TaskProgress None)],
             progress = TaskProgress None \<rparr>"
  using assms by (simp add: generate_def Let_def)

lemma generate_Inr:
  assumes "compile (batched_rows ctx env) (TaskProgress None) = Inr (s, e, p)"
  shows "generate ctx env =
           \<lparr> outcome = Inr (),
             uploads = upload_reports ctx (success_headers ctx) s error_headers e,
             statuses = [(''Starting grades'', TaskProgress None), (''Compiling grades'', TaskProgress None),
                         (''Uploading grades'', p), (''Completed grades'', p)],
             progress = p \<rparr>"
  using assms by (simp add: generate_def Let_def)

lemma compile_counters:
  assumes "compile batches (TaskProgress None) = Inr (s, e, p)"
  shows "counters_consistent p \<and> succeeded p = length s \<and> failed p = length e
         \<and> counters_le (TaskProgress None) p"
proof -
  from assms obtain pairs where "s = concat (map fst pairs)" "e = concat (map snd pairs)"
    and "p = (TaskProgress None)\<lparr> succeeded := length s, failed := length e,
               attempted := length s + length e, total := Some (length s + length e) \<rparr>"
    by (auto simp: compile_eq split: sum.splits if_splits)
  then show ?thesis
    by (simp add: counters_consistent_def counters_le_def TaskProgress_def)
qed

lemma example_generate:
  "generate (example_context example_config) (example_collaborators (example_score 3 4 (Some 42))) =
     \<lparr> outcome = Inr (),
       uploads = upload_reports (example_context example_config)
         (success_headers (example_context example_config))
         [example_row 1 ''ann'', example_row 2 ''bob'', example_row 4 ''dee'', example_row 5 ''eve'']
         error_headers [[CInt 3, CStr ''cy'', CStr ''grading failed'']],
       statuses = [(''Starting grades'', TaskProgress None), (''Compiling grades'', TaskProgress None),
                   (''Uploading grades'', example_progress), (''Completed grades'', example_progress)],
       progress = example_progress \<rparr>"
  unfolding example_progress_def by (rule generate_Inr [OF example_compile])

lemma example_scorable_blocks:
  "graded_scorable_blocks_to_header example_config =
     [(''hw1/p'', [''Homework 1: H1 - P (Earned)'', ''Homework 1: H1 - P (Possible)'']),
      (''hw2/p'', [''Homework 2: H2 - P (Earned)'', ''Homework 2: H2 - P (Possible)'']),
      (''hw3/p'', [''Homework 3: H3 - P (Earned)'', ''Homework 3: H3 - P (Possible)'']),
      (''ex1/p'', [''Exam 1: Final - P (Earned)'', ''Exam 1: Final - P (Possible)''])]"
  by (simp add: graded_scorable_blocks_to_header_def example_config_def example_sub_item_def
      assign_all_def problem_header_name_def string_of_nat.simps)

lemma example_problem_loop_task:
  "task (problem_loop example_config (example_collaborators (example_score 3 4 (Some 42)))
          (users_enrolled_in (example_collaborators (example_score 3 4 (Some 42))))) = example_progress"
  by (simp add: problem_loop_def Let_def example_collaborators_fields example_user_fields
      problem_step_task problem_start_def TaskProgress_def count_attempt_def example_progress_def)

subsection \<open>C1: rows and headers are aligned\<close>

text \<open>
  C1. Every success row built by \<^verbatim>\<open>_rows_for_users\<close> should have as many values as
  \<^verbatim>\<open>_success_headers\<close> has headers for the same context, segment by segment;
  \<^verbatim>\<open>_user_grade_results\<close> documents its result as "corresponding to the headers for
  this report". The code misses the category without sub-items: \<^verbatim>\<open>_grades_header\<close>
  appends its average header, \<^verbatim>\<open>_user_grade_results\<close> appends the average only for more
  than one sub-item and has no sub-item value to put in its place. For the category Lab
  without sub-items the row of a graded user has 12 values under 13 headers: the grade
  segment of the headers is Grade and Lab, that of the row is the overall percentage
  alone, and every later value stands one column to the left of its header.
\<close>

theorem empty_category_misaligned:
  "rows_for_users (example_context [(''Lab'', [])]) (example_collaborators (example_score 3 4 (Some 42)))
     [Some (example_user 1 ''ann'')]
     = Inr ([[CInt 1, CStr ''ann@example.com'', CStr ''ann'', CNum (3 / 4),
              CStr [], CStr ''A'', CStr [], CStr ''verified'', CStr ''ID Verified'',
              CStr ''Y'', CStr ''N'', CStr ''N/A'']], [])
   \<and> success_headers (example_context [(''Lab'', [])])
     = [''Student ID'', ''Email'', ''Username'', ''Grade'', ''Lab'',
        ''Cohort Name'', ''Experiment Group (Split)'', ''Team Name'',
        ''Enrollment Track'', ''Verification Status'',
        ''Certificate Eligible'', ''Certificate Delivered'', ''Certificate Type'']
   \<and> user_grade_results (example_grade (example_score 3 4 (Some 42))) (example_context [(''Lab'', [])])
     = Inr [CNum (3 / 4)]
   \<and> grades_header (example_context [(''Lab'', [])]) = [''Lab'']"
proof -
  have ga: "graded_assignments (example_context [(''Lab'', [])]) =
      [(''Lab'', \<lparr> subsection_headers = [], average_header = ''Lab'',
                  separate_subsection_avg_headers = False \<rparr>)]"
    by (simp add: graded_assignments_def graded_assignment_def graded_subsections_map_def
        assign_all_def example_context_fields)
  have ug: "user_grade_results (example_grade (example_score 3 4 (Some 42))) (example_context [(''Lab'', [])])
      = Inr [CNum (3 / 4)]"
    by (simp add: user_grade_results_def ga assignment_grade_results_def keys_def example_grade_def)
  then have "rows_for_users (example_context [(''Lab'', [])])
      (example_collaborators (example_score 3 4 (Some 42))) [Some (example_user 1 ''ann'')]
     = Inr ([[CInt 1, CStr ''ann@example.com'', CStr ''ann'', CNum (3 / 4),
              CStr [], CStr ''A'', CStr [], CStr ''verified'', CStr ''ID Verified'',
              CStr ''Y'', CStr ''N'', CStr ''N/A'']], [])"
    by (simp add: rows_for_users_def success_row_def user_cohort_group_names_def
        user_experiment_group_names_def user_team_names_def user_verification_mode_def
        user_certificate_info_def name_or_empty_def example_context_fields
        example_collaborators_fields example_user_fields)
  moreover have "success_headers (example_context [(''Lab'', [])])
     = [''Student ID'', ''Email'', ''Username'', ''Grade'', ''Lab'',
        ''Cohort Name'', ''Experiment Group (Split)'', ''Team Name'',
        ''Enrollment Track'', ''Verification Status'',
        ''Certificate Eligible'', ''Certificate Delivered'', ''Certificate Type'']"
    by (simp add: success_headers_def grades_header_def ga assignment_headers_def itervalues_def
        example_context_fields)
  moreover have "grades_header (example_context [(''Lab'', [])]) = [''Lab'']"
    by (simp add: grades_header_def ga assignment_headers_def itervalues_def)
  ultimately show ?thesis using ug by simp
qed

text \<open>
  Where every category has at least one sub-item the row is aligned with the headers,
  segment by segment: identity, grades (the overall grade and the grade columns), cohort,
  experiments, team, enrollment and verification, certificate.
\<close>

lemma success_row_segments:
  assumes "nonempty_categories (all_graded_subsections_by_type ctx)"
    and "success_row ctx env wl u g = Inr r"
  shows "\<exists>grades. user_grade_results g ctx = Inr grades
     \<and> r = identity_cells u @ grades @ user_cohort_group_names env u ctx
           @ user_experiment_group_names env u ctx @ user_team_names env u ctx
           @ user_verification_mode env u ctx @ user_certificate_info env u ctx g wl
     \<and> length (identity_cells u) = 3
     \<and> length grades = 1 + length (grades_header ctx)
     \<and> length (user_cohort_group_names env u ctx) = (if cohorts_enabled ctx then 1 else 0)
     \<and> length (user_experiment_group_names env u ctx) = length (course_experiments ctx)
     \<and> length (user_team_names env u ctx) = (if teams_enabled ctx then 1 else 0)
     \<and> length (user_verification_mode env u ctx) = 2
     \<and> length (user_certificate_info env u ctx g wl) = 3"
proof -
  from assms(2) obtain grades where c: "user_grade_results g ctx = Inr grades"
    and r: "r = identity_cells u @ grades @ user_cohort_group_names env u ctx
               @ user_experiment_group_names env u ctx @ user_team_names env u ctx
               @ user_verification_mode env u ctx @ user_certificate_info env u ctx g wl"
    by (auto simp: success_row_def identity_cells_def split: sum.splits)
  have "length grades = 1 + length (grades_header ctx)"
    using assms(1) c by (rule user_grade_results_aligned)
  then show ?thesis
    using c r
    by (simp add: identity_cells_def user_cohort_group_names_def user_experiment_group_names_def
        user_team_names_def user_verification_mode_def length_user_certificate_info Let_def)
qed

lemma rows_aligned:
  assumes "nonempty_categories (all_graded_subsections_by_type ctx)"
    and "rows_for_users ctx env users = Inr (successes, errors)"
    and "r \<in> set successes"
  shows "length r = length (success_headers ctx)"
  using rows_loop_aligned [OF assms(1), of env "certificate_whitelist env" "[]" "[]" users successes errors]
    assms(2,3)
  by (simp add: rows_for_users_def)

subsection \<open>C2: the number of header columns\<close>

text \<open>
  C2, as amended. The success table has 3 identity columns, 1 column for the overall
  grade, 1 for the cohort if cohorts are enabled, one per experiment partition, 1 for the
  team if teams are enabled, 2 for enrollment and verification, 3 for the certificate,
  and the grade columns of the categories: for a category of more than one sub-item the
  number of its sub-items plus one, and one column otherwise.
\<close>

theorem header_count:
  assumes "unique_categories (all_graded_subsections_by_type ctx)"
    and "unique_locations (all_graded_subsections_by_type ctx)"
  shows "length (success_headers ctx) =
           3 + 1 + (if cohorts_enabled ctx then 1 else 0) + length (course_experiments ctx)
           + (if teams_enabled ctx then 1 else 0) + 2 + 3
           + grade_columns (all_graded_subsections_by_type ctx)"
  by (simp add: success_headers_def grades_header_distinct [OF assms] length_concat_category_headers)

theorem header_count_witness:
  "length (success_headers (example_context example_config)) = 17
   \<and> grade_columns example_config = 5"
proof -
  have u1: "unique_categories (all_graded_subsections_by_type (example_context example_config))"
    by (simp add: unique_categories_def keys_def example_context_fields example_config_def)
  have u2: "unique_locations (all_graded_subsections_by_type (example_context example_config))"
    by (simp add: unique_locations_def sub_item_locations_def example_context_fields
        example_config_def example_sub_item_def)
  have g: "grade_columns example_config = 5"
    by (simp add: grade_columns_def example_config_def)
  show ?thesis
    using header_count [OF u1 u2] g by (simp add: example_context_fields)
qed

text \<open>
  The claim as stated leaves the column of the overall grade out: without any graded
  category the code has one header more than the claim counts.
\<close>

theorem header_count_counterexample:
  "length (success_headers (example_context [])) = 12
   \<and> 3 + (if cohorts_enabled (example_context []) then 1 else 0)
       + length (course_experiments (example_context []))
       + (if teams_enabled (example_context []) then 1 else 0) + 2 + 3
       + grade_columns [] = (11::nat)"
  by (simp add: success_headers_def grades_header_def graded_assignments_def assign_all_def
      itervalues_def grade_columns_def example_context_fields)

subsection \<open>C3: the headers of a category\<close>

text \<open>
  C3. In the derived schema a category of exactly one sub-item contributes the bare
  category name and nothing else, and a category of N > 1 sub-items named S1..SN
  contributes the headers "category i: Si" for i = 1..N, in order, followed by
  "category (Avg)": the grade headers are those of \<open>category_headers\<close>, category by
  category in the order of the configuration.
\<close>

theorem schema_headers:
  assumes "unique_categories (all_graded_subsections_by_type ctx)"
    and "unique_locations (all_graded_subsections_by_type ctx)"
  shows "grades_header ctx = concat (map category_headers (all_graded_subsections_by_type ctx))"
  using assms by (rule grades_header_distinct)

theorem schema_headers_witness:
  "grades_header (example_context example_config) =
     [''Homework 1: H1'', ''Homework 2: H2'', ''Homework 3: H3'', ''Homework (Avg)'', ''Exam'']"
proof -
  have u1: "unique_categories (all_graded_subsections_by_type (example_context example_config))"
    by (simp add: unique_categories_def keys_def example_context_fields example_config_def)
  have u2: "unique_locations (all_graded_subsections_by_type (example_context example_config))"
    by (simp add: unique_locations_def sub_item_locations_def example_context_fields
        example_config_def example_sub_item_def)
  show ?thesis
    using schema_headers [OF u1 u2]
    by (simp add: example_context_fields example_config_def example_sub_item_def
        category_headers_def string_of_nat.simps)
qed

subsection \<open>C4: a failed grade computation does not abort the batch\<close>

text \<open>
  C4. An entity whose grade is absent should add exactly one error row and no success
  row, without a raise and without stopping the batch, and an entity whose grade is
  present exactly one success row and no error row. The code catches nothing while it
  assembles a success row, and \<^verbatim>\<open>_user_grade_results\<close> divides the earned by the
  possible points of an attempted sub-item without looking at the divisor. For a user
  whose grade is present and whose attempted sub-item has zero possible points the
  division raises \<^verbatim>\<open>ZeroDivisionError\<close>: the batch returns no row, neither for this user
  nor for any other, and the run ends in \<^verbatim>\<open>_compile\<close> before anything is uploaded.
\<close>

theorem zero_possible_aborts_run:
  "grade_iter (example_collaborators (example_score 0 0 (Some 42))) (example_user 1 ''ann'')
     = (Some (example_grade (example_score 0 0 (Some 42))), Some [])
   \<and> user_grade_results (example_grade (example_score 0 0 (Some 42))) (example_context example_config)
     = Inl ZeroDivisionError
   \<and> rows_for_users (example_context example_config) (example_collaborators (example_score 0 0 (Some 42)))
       [Some (example_user 1 ''ann'')] = Inl ZeroDivisionError
   \<and> rows_for_users (example_context example_config) (example_collaborators (example_score 0 0 (Some 42)))
       [Some (example_user 3 ''cy''), Some (example_user 1 ''ann'')] = Inl ZeroDivisionError
   \<and> outcome (generate (example_context example_config)
                (example_collaborators (example_score 0 0 (Some 42)))) = Inl ZeroDivisionError
   \<and> uploads (generate (example_context example_config)
                (example_collaborators (example_score 0 0 (Some 42)))) = []"
proof -
  have ug: "user_grade_results (example_grade (example_score 0 0 (Some 42))) (example_context example_config)
      = Inl ZeroDivisionError"
    by (simp add: user_grade_results_def example_graded_assignments assignment_grade_results_def
        subsection_grade_result_def keys_def example_grade_def example_score_def)
  have one: "rows_for_users (example_context example_config)
      (example_collaborators (example_score 0 0 (Some 42))) [Some (example_user 1 ''ann'')]
      = Inl ZeroDivisionError"
    using ug
    by (simp add: rows_for_users_def success_row_def example_collaborators_fields example_user_fields)
  have two: "rows_for_users (example_context example_config)
      (example_collaborators (example_score 0 0 (Some 42)))
      [Some (example_user 3 ''cy''), Some (example_user 1 ''ann'')] = Inl ZeroDivisionError"
    using ug
    by (simp add: rows_for_users_def success_row_def example_collaborators_fields example_user_fields)
  have "compile (batched_rows (example_context example_config)
      (example_collaborators (example_score 0 0 (Some 42)))) (TaskProgress None) = Inl ZeroDivisionError"
    using one by (simp add: compile_eq batched_rows_eq example_collaborators_fields)
  then have "generate (example_context example_config)
      (example_collaborators (example_score 0 0 (Some 42)))
      = \<lparr> outcome = Inl ZeroDivisionError, uploads = [],
          statuses = [(''Starting grades'', TaskProgress None), (''Compiling grades'', TaskProgress None)],
          progress = TaskProgress None \<rparr>"
    by (rule generate_Inl)
  then show ?thesis
    using ug one two by (simp add: example_collaborators_fields example_user_fields)
qed

text \<open>
  Where no graded entity of the batch has an attempted sub-item with zero possible
  points, row compilation returns, with one error row for every absent grade and one
  success row for every present grade, in the order of the batch.
\<close>

lemma failure_isolation:
  assumes "all_gradable ctx env users"
  shows "\<exists>successes. rows_for_users ctx env (map Some users)
            = Inr (successes, concat (map (error_rows_of env) users))
          \<and> map Inr successes = concat (map (success_rows_of ctx env) users)"
  using rows_loop_all [OF assms, of "[]" "[]"] by (simp add: rows_for_users_def)

text \<open>
  Five entities, the third of which cannot be graded: four success rows and one error row.
\<close>

lemma failure_isolation_example:
  "rows_for_users (example_context example_config) (example_collaborators (example_score 3 4 (Some 42)))
     (map Some (users_enrolled_in (example_collaborators (example_score 3 4 (Some 42)))))
   = Inr ([example_row 1 ''ann'', example_row 2 ''bob'', example_row 4 ''dee'', example_row 5 ''eve''],
          [[CInt 3, CStr ''cy'', CStr ''grading failed'']])"
proof -
  from failure_isolation [OF example_all_gradable] obtain successes where
    r: "rows_for_users (example_context example_config)
          (example_collaborators (example_score 3 4 (Some 42)))
          (map Some (users_enrolled_in (example_collaborators (example_score 3 4 (Some 42)))))
        = Inr (successes, concat (map (error_rows_of (example_collaborators (example_score 3 4 (Some 42))))
                 (users_enrolled_in (example_collaborators (example_score 3 4 (Some 42))))))"
    and m: "map Inr successes
        = concat (map (success_rows_of (example_context example_config)
                         (example_collaborators (example_score 3 4 (Some 42))))
                   (users_enrolled_in (example_collaborators (example_score 3 4 (Some 42)))))"
    by blast
  have "(map Inr successes :: (py_error + row) list)
      = map Inr [example_row 1 ''ann'', example_row 2 ''bob'', example_row 4 ''dee'', example_row 5 ''eve'']"
    unfolding m
    by (simp add: success_rows_of_def example_collaborators_fields example_user_fields example_success_row)
  then have "successes = [example_row 1 ''ann'', example_row 2 ''bob'', example_row 4 ''dee'', example_row 5 ''eve'']"
    by (simp only: inj_map_eq_map [OF inj_Inr])
  moreover have "concat (map (error_rows_of (example_collaborators (example_score 3 4 (Some 42))))
                 (users_enrolled_in (example_collaborators (example_score 3 4 (Some 42)))))
      = [[CInt 3, CStr ''cy'', CStr ''grading failed'']]"
    by (simp add: error_rows_of_def example_collaborators_fields example_user_fields message_cell_def)
  ultimately show ?thesis using r by simp
qed

subsection \<open>C5: the progress counters\<close>

text \<open>
  C5. After \<^verbatim>\<open>_compile\<close> the counters satisfy attempted = succeeded + failed, with
  succeeded the number of success rows and failed the number of error rows, and no
  counter is below its value in the new \<^verbatim>\<open>TaskProgress\<close>; every progress the status sink
  of a course report sees is consistent, in ascending order. In the problem report the
  invariant holds after every iteration of the loop over any students, the two
  assignments of an iteration only raise counters, and what the status sink sees is
  consistent and ascending.
\<close>

theorem progress_counters:
  "(\<forall>successes errors p. compile batches (TaskProgress None) = Inr (successes, errors, p) \<longrightarrow>
       counters_consistent p \<and> succeeded p = length successes \<and> failed p = length errors
       \<and> counters_le (TaskProgress None) p)
   \<and> (\<forall>s \<in> set (statuses (generate ctx env)). counters_consistent (snd s))
   \<and> sorted_wrt counters_le (map snd (statuses (generate ctx env)))
   \<and> loop_invariant (problem_loop gc env students)
   \<and> counters_le (task st) (count_attempt (task st))
   \<and> counters_le (count_attempt (task st)) (task (problem_step blocks st item))
   \<and> (\<forall>s \<in> set (statuses (problem_generate course gc env)). counters_consistent (snd s))
   \<and> sorted_wrt counters_le (map snd (statuses (problem_generate course gc env)))"
proof -
  have 1: "\<forall>successes errors p. compile batches (TaskProgress None) = Inr (successes, errors, p) \<longrightarrow>
       counters_consistent p \<and> succeeded p = length successes \<and> failed p = length errors
       \<and> counters_le (TaskProgress None) p"
    using compile_counters by blast
  have zero: "counters_consistent (TaskProgress None)"
    by (simp add: counters_consistent_def TaskProgress_def)
  have 2: "(\<forall>s \<in> set (statuses (generate ctx env)). counters_consistent (snd s))
      \<and> sorted_wrt counters_le (map snd (statuses (generate ctx env)))"
  proof (cases "compile (batched_rows ctx env) (TaskProgress None)")
    case (Inl e)
    show ?thesis by (simp add: generate_Inl [OF Inl] zero counters_le_refl)
  next
    case (Inr x)
    obtain s e p where x: "x = (s, e, p)" by (cases x)
    from compile_counters [OF Inr [unfolded x]] show ?thesis
      by (simp add: generate_Inr [OF Inr [unfolded x]] zero counters_le_refl)
  qed
  have inv: "loop_invariant (problem_loop gc env (users_enrolled_in env))"
    by (rule problem_loop_invariant)
  have 3: "(\<forall>s \<in> set (statuses (problem_generate course gc env)). counters_consistent (snd s))
      \<and> sorted_wrt counters_le (map snd (statuses (problem_generate course gc env)))"
    using inv
    by (auto simp: problem_generate_def Let_def loop_invariant_def sorted_wrt_append comp_def)
  show ?thesis
    using 1 2 3 problem_loop_invariant [of gc env students] count_attempt_le [of "task st"]
      problem_step_le [of st blocks item]
    by blast
qed

theorem progress_counters_witness:
  "progress (generate (example_context example_config)
      (example_collaborators (example_score 3 4 (Some 42)))) = example_progress
   \<and> counters_consistent example_progress
   \<and> counters_le (TaskProgress None) example_progress
   \<and> task (problem_loop example_config (example_collaborators (example_score 3 4 (Some 42)))
            (users_enrolled_in (example_collaborators (example_score 3 4 (Some 42))))) = example_progress
   \<and> loop_invariant (problem_loop example_config (example_collaborators (example_score 3 4 (Some 42)))
            (users_enrolled_in (example_collaborators (example_score 3 4 (Some 42)))))"
  using progress_counters [of
      "batched_rows (example_context example_config) (example_collaborators (example_score 3 4 (Some 42)))"
      "example_context example_config" "example_collaborators (example_score 3 4 (Some 42))"
      example_config "users_enrolled_in (example_collaborators (example_score 3 4 (Some 42)))"]
  by (simp add: example_compile example_generate example_problem_loop_task
      example_progress_def [symmetric])

subsection \<open>C6: the error artifact is uploaded only when there are errors\<close>

text \<open>
  C6. A course report that completes uploads the success table and, exactly when
  failed > 0, the error table after it; a run that fails uploads nothing and has counted
  no failure. Each uploaded table has its header row and one row per counted entity. The
  problem report uploads the error table exactly when failed > 0, and its success table
  exactly when succeeded > 0, whatever the errors.
\<close>

theorem upload_condition:
  "map csv_name (uploads (generate ctx env)) =
     (if outcome (generate ctx env) = Inr ()
      then ''grade_report'' # (if failed (progress (generate ctx env)) > 0
                               then [''grade_report_err''] else [])
      else [])
   \<and> (failed (progress (generate ctx env)) > 0
        \<longleftrightarrow> (\<exists>u \<in> set (uploads (generate ctx env)). csv_name u = ''grade_report_err''))
   \<and> (\<forall>u \<in> set (uploads (generate ctx env)).
         csv_rows u \<noteq> []
         \<and> (csv_name u = ''grade_report_err'' \<longrightarrow>
               length (csv_rows u) = failed (progress (generate ctx env)) + 1)
         \<and> (csv_name u = ''grade_report'' \<longrightarrow>
               length (csv_rows u) = succeeded (progress (generate ctx env)) + 1))
   \<and> map csv_name (uploads (problem_generate course gc env)) =
       (if succeeded (progress (problem_generate course gc env)) > 0
        then [''problem_grade_report''] else [])
       @ (if failed (progress (problem_generate course gc env)) > 0
          then [''problem_grade_report_err''] else [])"
proof -
  have 1: "map csv_name (uploads (generate ctx env)) =
     (if outcome (generate ctx env) = Inr ()
      then ''grade_report'' # (if failed (progress (generate ctx env)) > 0
                               then [''grade_report_err''] else [])
      else [])
   \<and> (failed (progress (generate ctx env)) > 0
        \<longleftrightarrow> (\<exists>u \<in> set (uploads (generate ctx env)). csv_name u = ''grade_report_err''))
   \<and> (\<forall>u \<in> set (uploads (generate ctx env)).
         csv_rows u \<noteq> []
         \<and> (csv_name u = ''grade_report_err'' \<longrightarrow>
               length (csv_rows u) = failed (progress (generate ctx env)) + 1)
         \<and> (csv_name u = ''grade_report'' \<longrightarrow>
               length (csv_rows u) = succeeded (progress (generate ctx env)) + 1))"
  proof (cases "compile (batched_rows ctx env) (TaskProgress None)")
    case (Inl e)
    show ?thesis by (simp add: generate_Inl [OF Inl] TaskProgress_def)
  next
    case (Inr x)
    obtain s e p where x: "x = (s, e, p)" by (cases x)
    from compile_counters [OF Inr [unfolded x]] show ?thesis
      by (simp add: generate_Inr [OF Inr [unfolded x]] upload_reports_def)
  qed
  have inv: "loop_invariant (problem_loop gc env (users_enrolled_in env))"
    by (rule problem_loop_invariant)
  have 2: "map csv_name (uploads (problem_generate course gc env)) =
       (if succeeded (progress (problem_generate course gc env)) > 0
        then [''problem_grade_report''] else [])
       @ (if failed (progress (problem_generate course gc env)) > 0
          then [''problem_grade_report_err''] else [])"
    using inv by (simp add: problem_generate_def Let_def problem_uploads_def loop_invariant_def)
  show ?thesis using 1 2 by blast
qed

theorem upload_condition_witness:
  "map csv_name (uploads (generate (example_context example_config)
      (example_collaborators (example_score 3 4 (Some 42))))) = [''grade_report'', ''grade_report_err'']
   \<and> map csv_name (uploads (generate (example_context example_config)
      (no_users (example_collaborators (example_score 3 4 (Some 42)))))) = []
   \<and> map csv_name (uploads (problem_generate ''course'' example_config
      (example_collaborators (example_score 3 4 (Some 42)))))
      = [''problem_grade_report'', ''problem_grade_report_err'']"
proof -
  have e: "outcome (generate (example_context example_config)
      (no_users (example_collaborators (example_score 3 4 (Some 42))))) = Inl ValueError"
    by (simp add: generate_outcome batched_rows_eq no_users_fields compile_Nil)
  have p: "progress (problem_generate ''course'' example_config
      (example_collaborators (example_score 3 4 (Some 42)))) = example_progress"
    by (simp add: problem_generate_def Let_def example_problem_loop_task)
  show ?thesis
    using upload_condition [of "example_context example_config"
        "example_collaborators (example_score 3 4 (Some 42))" "''course''" example_config]
      upload_condition [of "example_context example_config"
        "no_users (example_collaborators (example_score 3 4 (Some 42)))" "''course''" example_config]
    by (simp add: example_generate e p) (simp add: example_progress_def)
qed

subsection \<open>C7: the schema is a function of the configuration alone\<close>

text \<open>
  C7. Two contexts with the same graded-assignment configuration derive the same schema
  and the same grade headers, whatever else differs between them; and the header row of
  the problem report is the one derived from the configuration, whatever the
  collaborators return and whichever students are processed.
\<close>

theorem schema_determined:
  "(all_graded_subsections_by_type c1 = all_graded_subsections_by_type c2 \<longrightarrow>
      graded_assignments c1 = graded_assignments c2 \<and> grades_header c1 = grades_header c2)
   \<and> take 1 (rows (problem_loop gc env students)) = [problem_header_row gc]"
  using problem_loop_header [of gc env students]
  by (simp add: graded_assignments_def grades_header_def)

theorem schema_determined_witness:
  "grades_header ((example_context example_config)\<lparr> course_id := ''other'', cohorts_enabled := False \<rparr>)
     = [''Homework 1: H1'', ''Homework 2: H2'', ''Homework 3: H3'', ''Homework (Avg)'', ''Exam'']
   \<and> take 1 (rows (problem_loop example_config (example_collaborators (example_score 3 4 (Some 42)))
        (users_enrolled_in (example_collaborators (example_score 3 4 (Some 42))))))
     = [[CStr ''Student ID'', CStr ''Email'', CStr ''Username'', CStr ''Grade'',
         CStr ''Homework 1: H1 - P (Earned)'', CStr ''Homework 1: H1 - P (Possible)'',
         CStr ''Homework 2: H2 - P (Earned)'', CStr ''Homework 2: H2 - P (Possible)'',
         CStr ''Homework 3: H3 - P (Earned)'', CStr ''Homework 3: H3 - P (Possible)'',
         CStr ''Exam 1: Final - P (Earned)'', CStr ''Exam 1: Final - P (Possible)'']]"
proof -
  have g: "grades_header (example_context example_config)
     = [''Homework 1: H1'', ''Homework 2: H2'', ''Homework 3: H3'', ''Homework (Avg)'', ''Exam'']"
    by (simp add: grades_header_def example_graded_assignments assignment_headers_def itervalues_def)
  have c: "all_graded_subsections_by_type
      ((example_context example_config)\<lparr> course_id := ''other'', cohorts_enabled := False \<rparr>)
      = all_graded_subsections_by_type (example_context example_config)"
    by simp
  show ?thesis
    using schema_determined [of
        "(example_context example_config)\<lparr> course_id := ''other'', cohorts_enabled := False \<rparr>"
        "example_context example_config" example_config
        "example_collaborators (example_score 3 4 (Some 42))"
        "users_enrolled_in (example_collaborators (example_score 3 4 (Some 42)))"]
    by (simp only: c g) (simp add: problem_header_row_def example_scorable_blocks itervalues_def
        header_cells_def)
qed

subsection \<open>C8: the cells of the grade columns\<close>

text \<open>
  C8, as amended. A sub-item cell of the course report is "Not Available" when the grade
  result has no entry for the sub-item, "Not Attempted" when the entry was never
  attempted, and the earned points divided by the possible points otherwise (for
  non-zero possible points). The cells of a problem in the problem report are
  "Not Available" twice without an entry, "Not Attempted" and the possible points when
  never attempted, the earned and the possible points otherwise. The average cell of a
  category is the percentage the grade breakdown has under the category name, \<^verbatim>\<open>None\<close>
  when it has none. The grade segment of a row is the overall percentage followed by the
  cells of the categories in schema order.
\<close>

theorem cell_values:
  "(sub_item_entry g t l = None \<longrightarrow> subsection_grade_result g t l = Inr (CStr ''Not Available''))
   \<and> (\<forall>sg. sub_item_entry g t l = Some sg \<and> first_attempted (graded_total sg) = None
         \<longrightarrow> subsection_grade_result g t l = Inr (CStr ''Not Attempted''))
   \<and> (\<forall>sg. sub_item_entry g t l = Some sg \<and> first_attempted (graded_total sg) \<noteq> None
           \<and> possible (graded_total sg) \<noteq> 0
         \<longrightarrow> subsection_grade_result g t l
             = Inr (CNum (earned (graded_total sg) / possible (graded_total sg))))
   \<and> (problem_scores g b = None
         \<longrightarrow> problem_cells g b = [CStr ''Not Available'', CStr ''Not Available''])
   \<and> (\<forall>ps. problem_scores g b = Some ps \<and> first_attempted ps = None
         \<longrightarrow> problem_cells g b = [CStr ''Not Attempted'', CNum (possible ps)])
   \<and> (\<forall>ps. problem_scores g b = Some ps \<and> first_attempted ps \<noteq> None
         \<longrightarrow> problem_cells g b = [CNum (earned ps), CNum (possible ps)])
   \<and> assignment_average g t
       = (case grade_breakdown g t of
            None \<Rightarrow> CNone
          | Some d \<Rightarrow> (case d ''percent'' of None \<Rightarrow> CNone | Some p \<Rightarrow> CNum p))
   \<and> (no_zero_division ctx g
         \<longrightarrow> user_grade_results g ctx
             = Inr (CNum (percent g) # concat (map (category_cells g) (graded_assignments ctx))))"
proof -
  have a: "subsection_grade_result g t l =
      (case sub_item_entry g t l of
         None \<Rightarrow> Inr (CStr ''Not Available'')
       | Some sg \<Rightarrow>
           if first_attempted (graded_total sg) \<noteq> None
           then if possible (graded_total sg) = 0 then Inl ZeroDivisionError
                else Inr (CNum (earned (graded_total sg) / possible (graded_total sg)))
           else Inr (CStr ''Not Attempted''))"
    by (simp add: subsection_grade_result_def sub_item_entry_def split: option.splits)
  have b: "assignment_average g t
       = (case grade_breakdown g t of
            None \<Rightarrow> CNone
          | Some d \<Rightarrow> (case d ''percent'' of None \<Rightarrow> CNone | Some p \<Rightarrow> CNum p))"
    by (simp add: assignment_average_def split: option.splits)
  show ?thesis
    using user_grade_results_eq [of ctx g]
    by (simp add: a b problem_cells_def)
qed

theorem cell_values_witness:
  "subsection_grade_result (example_grade (example_score 3 4 (Some 42))) ''Homework'' ''hw3''
     = Inr (CStr ''Not Available'')
   \<and> subsection_grade_result (example_grade (example_score 3 4 (Some 42))) ''Homework'' ''hw2''
     = Inr (CStr ''Not Attempted'')
   \<and> subsection_grade_result (example_grade (example_score 3 4 (Some 42))) ''Homework'' ''hw1''
     = Inr (CNum (3 / 4))
   \<and> problem_cells (example_grade (example_score 3 4 (Some 42))) ''hw3/p''
     = [CStr ''Not Available'', CStr ''Not Available'']
   \<and> problem_cells (example_grade (example_score 3 4 (Some 42))) ''hw2/p''
     = [CStr ''Not Attempted'', CNum 5]
   \<and> problem_cells (example_grade (example_score 3 4 (Some 42))) ''hw1/p'' = [CNum 3, CNum 4]
   \<and> assignment_average (example_grade (example_score 3 4 (Some 42))) ''Homework'' = CNum (1 / 2)
   \<and> assignment_average (example_grade (example_score 3 4 (Some 42))) ''Exam'' = CNone"
proof -
  let ?g = "example_grade (example_score 3 4 (Some 42))"
  let ?c = "example_context example_config"
  have e: "sub_item_entry ?g ''Homework'' ''hw3'' = None"
    "sub_item_entry ?g ''Homework'' ''hw2'' = Some \<lparr> graded_total = example_score 0 5 None \<rparr>"
    "sub_item_entry ?g ''Homework'' ''hw1'' = Some \<lparr> graded_total = example_score 3 4 (Some 42) \<rparr>"
    by (simp_all add: sub_item_entry_def example_grade_def)
  have p: "problem_scores ?g ''hw3/p'' = None"
    "problem_scores ?g ''hw2/p'' = Some (example_score 0 5 None)"
    "problem_scores ?g ''hw1/p'' = Some (example_score 3 4 (Some 42))"
    by (simp_all add: example_grade_def)
  have b: "grade_breakdown ?g ''Homework'' = Some [''percent'' \<mapsto> 1 / 2]"
    "grade_breakdown ?g ''Exam'' = None"
    by (simp_all add: example_grade_def)
  have "subsection_grade_result ?g ''Homework'' ''hw3'' = Inr (CStr ''Not Available'')
      \<and> problem_cells ?g ''hw3/p'' = [CStr ''Not Available'', CStr ''Not Available'']
      \<and> assignment_average ?g ''Homework'' = CNum (1 / 2)"
    using cell_values [of ?g "''Homework''" "''hw3''" "''hw3/p''" ?c]
    by (simp add: e p b)
  moreover have "subsection_grade_result ?g ''Homework'' ''hw2'' = Inr (CStr ''Not Attempted'')
      \<and> problem_cells ?g ''hw2/p'' = [CStr ''Not Attempted'', CNum 5]"
    using cell_values [of ?g "''Homework''" "''hw2''" "''hw2/p''" ?c]
    by (simp add: e p b example_score_fields)
  moreover have "subsection_grade_result ?g ''Homework'' ''hw1'' = Inr (CNum (3 / 4))
      \<and> problem_cells ?g ''hw1/p'' = [CNum 3, CNum 4]"
    using cell_values [of ?g "''Homework''" "''hw1''" "''hw1/p''" ?c]
    by (simp add: e p b example_score_fields)
  moreover have "assignment_average ?g ''Exam'' = CNone"
    using cell_values [of ?g "''Exam''" "''hw1''" "''hw1/p''" ?c]
    by (simp add: b)
  ultimately show ?thesis by simp
qed

text \<open>The attempted cell of the course report is a ratio, not the earned value.\<close>

theorem cell_values_counterexample:
  "sub_item_entry (example_grade (example_score 3 4 (Some 42))) ''Homework'' ''hw1''
     = Some \<lparr> graded_total = \<lparr> earned = 3, possible = 4, first_attempted = Some 42 \<rparr> \<rparr>
   \<and> subsection_grade_result (example_grade (example_score 3 4 (Some 42))) ''Homework'' ''hw1''
     = Inr (CNum (3 / 4))
   \<and> CNum (3 / 4) \<noteq> CNum 3"
  by (simp add: subsection_grade_result_def sub_item_entry_def example_grade_def example_score_def)

subsection \<open>C9: the fill value of the batch iterator reaches no row\<close>

text \<open>
  C9. For every population the batches of \<^verbatim>\<open>_batch_users\<close> are the enrolled users one
  by one (the chunk size is 1, so no batch is padded), no batch holds the fill value, the
  run never fails on the fill value, and every row of the compiled success and error
  tables carries the identity of an enrolled user.
\<close>

theorem no_filler_rows:
  "batch_users env = map (\<lambda>u. [Some u]) (users_enrolled_in env)
   \<and> (\<forall>batch \<in> set (batch_users env). None \<notin> set batch)
   \<and> outcome (generate ctx env) \<noteq> Inl AttributeError
   \<and> (\<forall>successes errors q. compile (batched_rows ctx env) p = Inr (successes, errors, q) \<longrightarrow>
         (\<forall>r \<in> set successes. \<exists>u \<in> set (users_enrolled_in env). take 3 r = identity_cells u)
       \<and> (\<forall>r \<in> set errors. \<exists>u \<in> set (users_enrolled_in env). \<exists>m.
             r = [CInt (user_id u), CStr (username u), m]))"
proof (intro conjI allI impI)
  show "batch_users env = map (\<lambda>u. [Some u]) (users_enrolled_in env)"
    by (rule batch_users_eq)
  show "\<forall>batch \<in> set (batch_users env). None \<notin> set batch"
    by (auto simp: batch_users_eq)
  show "outcome (generate ctx env) \<noteq> Inl AttributeError"
    using compile_not_AttributeError [of ctx env "TaskProgress None"]
    by (auto simp: generate_outcome split: sum.splits)
next
  fix successes errors q
  assume c: "compile (batched_rows ctx env) p = Inr (successes, errors, q)"
  then obtain pairs where col: "collect (batched_rows ctx env) = Inr pairs"
    and s: "successes = concat (map fst pairs)" and e: "errors = concat (map snd pairs)"
    by (auto simp: compile_eq split: sum.splits if_splits)
  from col have b: "batched_rows ctx env = map Inr pairs"
    by (simp add: collect_Inr_iff)
  have members: "\<exists>u \<in> set (users_enrolled_in env).
        (\<forall>r \<in> set (fst pr). take 3 r = identity_cells u)
      \<and> (\<forall>r \<in> set (snd pr). \<exists>m. r = [CInt (user_id u), CStr (username u), m])"
    if "pr \<in> set pairs" for pr
  proof -
    from that b have "Inr pr \<in> set (batched_rows ctx env)" by simp
    from batched_rows_members [OF this] show ?thesis by auto
  qed
  show "\<forall>r \<in> set successes. \<exists>u \<in> set (users_enrolled_in env). take 3 r = identity_cells u"
    unfolding s using members by fastforce
  show "\<forall>r \<in> set errors. \<exists>u \<in> set (users_enrolled_in env). \<exists>m.
          r = [CInt (user_id u), CStr (username u), m]"
    unfolding e using members by fastforce
qed

theorem no_filler_rows_witness:
  "batch_users (example_collaborators (example_score 3 4 (Some 42)))
     = [[Some (example_user 1 ''ann'')], [Some (example_user 2 ''bob'')], [Some (example_user 3 ''cy'')],
        [Some (example_user 4 ''dee'')], [Some (example_user 5 ''eve'')]]
   \<and> outcome (generate (example_context example_config)
                (example_collaborators (example_score 3 4 (Some 42)))) \<noteq> Inl AttributeError"
  using no_filler_rows [of "example_collaborators (example_score 3 4 (Some 42))"
      "example_context example_config" "TaskProgress None"]
  by (simp add: example_collaborators_fields)

subsection \<open>C10: a course without enrolled users\<close>

text \<open>
  C10. With nobody enrolled the batch iterator yields no batch, the unpacking of
  \<^verbatim>\<open>izip(*batched_rows)\<close> in \<^verbatim>\<open>_compile\<close> raises \<^verbatim>\<open>ValueError\<close>, the run does not
  complete and nothing is uploaded. With somebody enrolled \<^verbatim>\<open>_compile\<close> never raises
  \<^verbatim>\<open>ValueError\<close>: when the batches have been computed there is one (success, error)
  pair per batch, the unpacking yields the success lists and the error lists of these
  pairs, \<^verbatim>\<open>_compile\<close> returns their concatenations with the counters set from them,
  and the run completes and uploads these rows.
\<close>

theorem empty_population:
  "(users_enrolled_in env = [] \<longrightarrow>
      batch_users env = [] \<and> compile (batched_rows ctx env) p = Inl ValueError
      \<and> outcome (generate ctx env) = Inl ValueError \<and> uploads (generate ctx env) = [])
   \<and> (users_enrolled_in env \<noteq> [] \<longrightarrow>
        compile (batched_rows ctx env) p \<noteq> Inl ValueError
      \<and> outcome (generate ctx env) \<noteq> Inl ValueError
      \<and> (\<forall>pairs. collect (batched_rows ctx env) = Inr pairs \<longrightarrow>
            length pairs = length (batch_users env)
          \<and> batched_rows ctx env = map Inr pairs
          \<and> unpack2 (izip_star (map (\<lambda>(s, e). [s, e]) pairs)) = Inr (map fst pairs, map snd pairs)
          \<and> compile (batched_rows ctx env) p
              = Inr (concat (map fst pairs), concat (map snd pairs),
                     p\<lparr> succeeded := length (concat (map fst pairs)),
                        failed := length (concat (map snd pairs)),
                        attempted := length (concat (map fst pairs)) + length (concat (map snd pairs)),
                        total := Some (length (concat (map fst pairs))
                                       + length (concat (map snd pairs))) \<rparr>)
          \<and> outcome (generate ctx env) = Inr ()
          \<and> uploads (generate ctx env)
              = upload_reports ctx (success_headers ctx) (concat (map fst pairs))
                  error_headers (concat (map snd pairs))))"
proof (intro conjI impI allI)
  assume e: "users_enrolled_in env = []"
  then show "batch_users env = []" by (simp add: batch_users_eq)
  from e show "compile (batched_rows ctx env) p = Inl ValueError"
    by (simp add: batched_rows_eq compile_Nil)
  from e have "compile (batched_rows ctx env) (TaskProgress None) = Inl ValueError"
    by (simp add: batched_rows_eq compile_Nil)
  then show "outcome (generate ctx env) = Inl ValueError" "uploads (generate ctx env) = []"
    by (simp_all add: generate_def Let_def)
next
  assume n: "users_enrolled_in env \<noteq> []"
  have no_value_error: "compile (batched_rows ctx env) q \<noteq> Inl ValueError" for q
  proof
    assume c: "compile (batched_rows ctx env) q = Inl ValueError"
    show False
    proof (cases "collect (batched_rows ctx env)")
      case (Inl e)
      with c have "e = ValueError" by (simp add: compile_eq)
      with collect_Inl [OF Inl] batched_rows_members [of "Inl ValueError" ctx env]
      show False by auto
    next
      case (Inr pairs)
      then have "length pairs = length (batched_rows ctx env)" by (rule collect_length)
      with n have "pairs \<noteq> []" by (auto simp: batched_rows_eq)
      with c Inr show False by (simp add: compile_eq)
    qed
  qed
  show "compile (batched_rows ctx env) p \<noteq> Inl ValueError"
    by (rule no_value_error)
  show "outcome (generate ctx env) \<noteq> Inl ValueError"
    using no_value_error [of "TaskProgress None"]
    by (auto simp: generate_outcome split: sum.splits)
  fix pairs
  assume col: "collect (batched_rows ctx env) = Inr pairs"
  then have l: "length pairs = length (batched_rows ctx env)" by (rule collect_length)
  then show "length pairs = length (batch_users env)" by (simp add: batched_rows_def)
  from col show "batched_rows ctx env = map Inr pairs" by (simp add: collect_Inr_iff)
  from l n have ne: "pairs \<noteq> []" by (auto simp: batched_rows_eq)
  then show "unpack2 (izip_star (map (\<lambda>(s, e). [s, e]) pairs)) = Inr (map fst pairs, map snd pairs)"
    by (simp add: unpack_batches)
  show "compile (batched_rows ctx env) p
      = Inr (concat (map fst pairs), concat (map snd pairs),
             p\<lparr> succeeded := length (concat (map fst pairs)),
                failed := length (concat (map snd pairs)),
                attempted := length (concat (map fst pairs)) + length (concat (map snd pairs)),
                total := Some (length (concat (map fst pairs))
                               + length (concat (map snd pairs))) \<rparr>)"
    using col ne by (simp add: compile_eq)
  have g: "compile (batched_rows ctx env) (TaskProgress None)
      = Inr (concat (map fst pairs), concat (map snd pairs),
             (TaskProgress None)\<lparr> succeeded := length (concat (map fst pairs)),
                failed := length (concat (map snd pairs)),
                attempted := length (concat (map fst pairs)) + length (concat (map snd pairs)),
                total := Some (length (concat (map fst pairs))
                               + length (concat (map snd pairs))) \<rparr>)"
    using col ne by (simp add: compile_eq)
  show "outcome (generate ctx env) = Inr ()"
    by (simp add: generate_Inr [OF g])
  show "uploads (generate ctx env)
      = upload_reports ctx (success_headers ctx) (concat (map fst pairs))
          error_headers (concat (map snd pairs))"
    by (simp add: generate_Inr [OF g])
qed

text \<open>
  Nobody enrolled: \<^verbatim>\<open>ValueError\<close> and no upload. Five enrolled, the third not graded:
  five pairs, compiled into four success rows and one error row, which the run uploads.
\<close>

theorem empty_population_witness:
  "outcome (generate (example_context example_config)
              (no_users (example_collaborators (example_score 3 4 (Some 42))))) = Inl ValueError
   \<and> uploads (generate (example_context example_config)
              (no_users (example_collaborators (example_score 3 4 (Some 42))))) = []
   \<and> compile (batched_rows (example_context example_config)
                (example_collaborators (example_score 3 4 (Some 42)))) (TaskProgress None)
     = Inr ([example_row 1 ''ann'', example_row 2 ''bob'', example_row 4 ''dee'', example_row 5 ''eve''],
            [[CInt 3, CStr ''cy'', CStr ''grading failed'']],
            \<lparr> total = Some 5, attempted = 5, succeeded = 4, failed = 1, skipped = 0 \<rparr>)
   \<and> outcome (generate (example_context example_config)
                (example_collaborators (example_score 3 4 (Some 42)))) = Inr ()
   \<and> map csv_rows (uploads (generate (example_context example_config)
                (example_collaborators (example_score 3 4 (Some 42)))))
     = [header_cells (success_headers (example_context example_config))
          # [example_row 1 ''ann'', example_row 2 ''bob'', example_row 4 ''dee'', example_row 5 ''eve''],
        [header_cells error_headers, [CInt 3, CStr ''cy'', CStr ''grading failed'']]]"
proof -
  let ?ctx = "example_context example_config"
  let ?env = "example_collaborators (example_score 3 4 (Some 42))"
  let ?pairs = "[([example_row 1 ''ann''], []), ([example_row 2 ''bob''], []),
                 ([], [[CInt 3, CStr ''cy'', CStr ''grading failed'']]),
                 ([example_row 4 ''dee''], []), ([example_row 5 ''eve''], [])]"
  have col: "collect (batched_rows ?ctx ?env) = Inr ?pairs"
    by (simp add: example_batched_rows)
  have n: "users_enrolled_in ?env \<noteq> []"
    by (simp add: example_collaborators_fields)
  have e: "users_enrolled_in (no_users ?env) = []"
    by (rule no_users_fields)
  from empty_population [of "no_users ?env" ?ctx "TaskProgress None"] e
  have a: "outcome (generate ?ctx (no_users ?env)) = Inl ValueError
      \<and> uploads (generate ?ctx (no_users ?env)) = []"
    by simp
  from empty_population [of ?env ?ctx "TaskProgress None"] n col
  have b: "compile (batched_rows ?ctx ?env) (TaskProgress None)
        = Inr (concat (map fst ?pairs), concat (map snd ?pairs),
               (TaskProgress None)\<lparr> succeeded := length (concat (map fst ?pairs)),
                  failed := length (concat (map snd ?pairs)),
                  attempted := length (concat (map fst ?pairs)) + length (concat (map snd ?pairs)),
                  total := Some (length (concat (map fst ?pairs))
                                 + length (concat (map snd ?pairs))) \<rparr>)
      \<and> outcome (generate ?ctx ?env) = Inr ()
      \<and> uploads (generate ?ctx ?env)
        = upload_reports ?ctx (success_headers ?ctx) (concat (map fst ?pairs))
            error_headers (concat (map snd ?pairs))"
    by blast
  show ?thesis
    using a b by (simp add: TaskProgress_def upload_reports_def)
qed

end
